theory Spec2Isabelle
  imports Main "HOL-Library.Multiset"
begin

section \<open>JavaScript values shared by the three proxies\<close>

text \<open>
  The repository holds three variants of one OpenSubtitles proxy: the Node server
  (\<^verbatim>\<open>opensubtitles-proxy-server.mjs\<close>), the Cloudflare worker
  (\<^verbatim>\<open>opensubtitles-proxy.worker.js\<close>) and the worker \<^verbatim>\<open>tronapp-subproxy\<close>
  (the unnamed third file). Each is embedded below with its own state.

  A JavaScript value that the code only tests for truthiness and then uses as a string
  is a \<open>string option\<close>: \<open>None\<close> stands for \<^verbatim>\<open>null\<close>/\<^verbatim>\<open>undefined\<close>,
  and the empty string is falsy as well. Strings are lists of characters with codes
  below 256.
\<close>

definition truthy :: "string option \<Rightarrow> bool" where
  "truthy v = (case v of None \<Rightarrow> False | Some s \<Rightarrow> s \<noteq> [])"

text \<open>\<^verbatim>\<open>a || b\<close> on such values.\<close>

definition js_or :: "string option \<Rightarrow> string option \<Rightarrow> string option" where
  "js_or a b = (if truthy a then a else b)"

text \<open>\<^verbatim>\<open>String.prototype.trim\<close>: white space and line terminators at both ends.\<close>

definition is_space :: "char \<Rightarrow> bool" where
  "is_space c = (of_char c \<in> {9, 10, 11, 12, 13, 32, 160 :: nat})"

definition trim :: "string \<Rightarrow> string" where
  "trim s = rev (dropWhile is_space (rev (dropWhile is_space s)))"

text \<open>The \<^verbatim>\<open>replace\<close> of the file names: every double quote (the character 0x22) removed.\<close>

definition strip_quotes :: "string \<Rightarrow> string" where
  "strip_quotes s = filter (\<lambda>c. c \<noteq> CHR 0x22) s"

text \<open>A text between double quotes, as the template literals of the headers write it.\<close>

definition quoted :: "string \<Rightarrow> string" where
  "quoted s = CHR 0x22 # s @ [CHR 0x22]"

text \<open>
  The body of an upstream answer after \<^verbatim>\<open>JSON.parse\<close>, with the fields the proxies
  read. \<open>json = None\<close> in a reply is a body that does not parse.
\<close>

record json_obj =
  j_message :: "string option"
  j_error :: "string option"
  j_token :: "string option"
  j_data_token :: "string option"
  j_link :: "string option"
  j_file_name :: "string option"

text \<open>The object \<^verbatim>\<open>{}\<close>.\<close>

definition empty_obj :: json_obj where
  "empty_obj = \<lparr>j_message = None, j_error = None, j_token = None, j_data_token = None,
     j_link = None, j_file_name = None\<rparr>"

record reply =
  status :: nat
  rtxt :: string
  json :: "json_obj option"
  rheaders :: "(string \<times> string) list"

text \<open>\<^verbatim>\<open>res.ok\<close> of the Fetch API: a status in the range 200 to 299.\<close>

definition ok :: "reply \<Rightarrow> bool" where
  "ok r = (200 \<le> status r \<and> status r \<le> 299)"

text \<open>What a \<^verbatim>\<open>fetch\<close> gives: an answer, or a rejection when the network fails.\<close>

datatype answer = Answer reply | NetworkError

text \<open>
  A request to the upstream API or to a signed link. \<open>'f\<close> is the type of the file id
  in the payload of \<^verbatim>\<open>/download\<close>; the bearer token of that call is absent when no
  \<^verbatim>\<open>Authorization\<close> header is sent.
\<close>

datatype 'f request =
    Login string string
  | Subtitles "(string \<times> string) list"
  | Download "string option" 'f string
  | FileGet string

text \<open>
  What the three files throw. The server: credentials missing (line 101), login refused
  with the upstream status and message (line 126), no token in the answer (line 132).
  The worker: login refused (line 68). \<^verbatim>\<open>tronapp-subproxy\<close>: a variable of the
  environment missing (line 39), login refused or without token (line 77), a malformed
  \<^verbatim>\<open>url\<close> parameter. All of them: a \<^verbatim>\<open>fetch\<close> that the network fails.
\<close>

datatype error =
    MissingCredentials
  | LoginRejected nat string
  | TokenAbsent
  | FetchFailed
  | LoginFailed nat "string option"
  | MissingEnv string
  | LoginFailedBody nat string
  | URIError

text \<open>
  A response to the client. Header names are written in lower case, as the
  \<^verbatim>\<open>Headers\<close> class stores them; the headers are an association list, and setting a
  header replaces the value it had. The payload is a JSON object with a message, an
  error that was caught and reported, the JSON of the upstream (with the message of the
  \<^verbatim>\<open>X-OpenSubtitles-Message\<close> header added, in the server), a text, or the body of the
  subtitle file passed through.
\<close>

datatype payload =
    NoBody
  | OkTrue
  | Message string
  | Failure error
  | Data "json_obj option"
  | Tagged json_obj string
  | RawText string
  | Stream string

record response =
  code :: nat
  headers :: "(string \<times> string) list"
  body :: payload

text \<open>
  The JSON body of a download request: \<open>file_id\<close> is \<^verbatim>\<open>Number(body.file_id)\<close> when
  that is a finite number (whole numbers only here), and \<open>None\<close> otherwise.
\<close>

record download_body =
  file_id :: "int option"
  sub_format :: "string option"

record http_request =
  req_method :: string
  pathname :: string
  searchParams :: "(string \<times> string) list"
  req_body :: download_body

section \<open>The Node server: \<^verbatim>\<open>opensubtitles-proxy-server.mjs\<close>\<close>

subsection \<open>State and configuration\<close>

record config =
  OS_USERNAME :: string
  OS_PASSWORD :: string

type_synonym caller = nat
type_synonym result = "error + string"

text \<open>
  The promise stored in \<^verbatim>\<open>loginInFlight\<close> is the async block of \<^verbatim>\<open>osLogin\<close>
  followed by its \<^verbatim>\<open>finally\<close> callback. The block is either suspended on the timer
  that spaces the logins (with the time the timer is due), or suspended on the answer of
  \<^verbatim>\<open>/login\<close>, or it has finished and its \<^verbatim>\<open>finally\<close> callback has yet to run.
  With the phase come the callers that await the promise, in the order they attached.
\<close>

datatype phase = Sleeping int | Fetching | Settled result

record system =
  cachedToken :: "string option"
  tokenSetAtMs :: int
  loginInFlight :: "(phase \<times> caller list) option"
  lastLoginAtMs :: int
  now :: int
  sent :: "(int \<times> int request) list"
  delivered :: "(caller \<times> result) list"

text \<open>
  \<open>now\<close> is what \<^verbatim>\<open>Date.now()\<close> returns; \<open>sent\<close> logs every network request with
  the time it was issued; \<open>delivered\<close> logs what each call of \<^verbatim>\<open>osLogin\<close> returned
  (\<open>Inr\<close>) or threw (\<open>Inl\<close>). The module starts with the four variables as declared.
\<close>

definition init :: "int \<Rightarrow> system" where
  "init t = \<lparr>cachedToken = None, tokenSetAtMs = 0, loginInFlight = None,
     lastLoginAtMs = 0, now = t, sent = [], delivered = []\<rparr>"

subsection \<open>\<^verbatim>\<open>osLogin\<close>, one step at a time\<close>

definition deliver :: "caller \<Rightarrow> result \<Rightarrow> system \<Rightarrow> system" where
  "deliver c res s = s\<lparr>delivered := delivered s @ [(c, res)]\<rparr>"

text \<open>Lines 115 to 122: the attempt is recorded, then \<^verbatim>\<open>/login\<close> is called.\<close>

definition issue_login :: "config \<Rightarrow> system \<Rightarrow> system" where
  "issue_login cfg s =
     s\<lparr>lastLoginAtMs := now s,
       sent := sent s @ [(now s, Login (OS_USERNAME cfg) (OS_PASSWORD cfg))]\<rparr>"

text \<open>Lines 110 to 115: the start of the async block, up to its first suspension.\<close>

definition start_login :: "config \<Rightarrow> caller \<Rightarrow> system \<Rightarrow> system" where
  "start_login cfg c s =
     (let delta = now s - lastLoginAtMs s in
      if delta < 1100
      then s\<lparr>loginInFlight := Some (Sleeping (now s + (1100 - delta)), [c])\<rparr>
      else (issue_login cfg s)\<lparr>loginInFlight := Some (Fetching, [c])\<rparr>)"

text \<open>Lines 104 to 106: the cached token and its age.\<close>

definition cache_lookup :: "system \<Rightarrow> string option" where
  "cache_lookup s =
     (let ageMs = now s - tokenSetAtMs s in
      if truthy (cachedToken s) \<and> ageMs < 8 * 60 * 60 * 1000 then cachedToken s else None)"

text \<open>
  A call of \<^verbatim>\<open>osLogin\<close> by caller \<open>c\<close>, up to the point where it returns or throws
  (\<open>Some\<close>), or suspends on \<^verbatim>\<open>loginInFlight\<close> (\<open>None\<close>): the caller then awaits
  the promise, whether it has just created it or found it there.
\<close>

definition osLogin :: "config \<Rightarrow> caller \<Rightarrow> system \<Rightarrow> result option \<times> system" where
  "osLogin cfg c s =
     (if OS_USERNAME cfg = [] \<or> OS_PASSWORD cfg = [] then (Some (Inl MissingCredentials), s)
      else case cache_lookup s of
        Some tok \<Rightarrow> (Some (Inr tok), s)
      | None \<Rightarrow>
          (case loginInFlight s of
             Some (ph, ws) \<Rightarrow> (None, s\<lparr>loginInFlight := Some (ph, ws @ [c])\<rparr>)
           | None \<Rightarrow> (None, start_login cfg c s)))"

text \<open>Line 125, and lines 155 and 199: the message of an upstream failure.\<close>

definition os_msg :: "reply \<Rightarrow> string" where
  "os_msg r =
     (case json r of
        None \<Rightarrow> rtxt r
      | Some j \<Rightarrow>
          (case js_or (j_message j) (j_error j) of
             Some m \<Rightarrow> if m \<noteq> [] then m else rtxt r
           | None \<Rightarrow> rtxt r))"

text \<open>Lines 124 to 135: what the async block does with the answer of \<^verbatim>\<open>/login\<close>.\<close>

fun login_outcome :: "answer \<Rightarrow> result" where
  "login_outcome NetworkError = Inl FetchFailed"
| "login_outcome (Answer r) =
     (if \<not> ok r then Inl (LoginRejected (status r) (os_msg r))
      else case json r of
        None \<Rightarrow> Inl TokenAbsent
      | Some j \<Rightarrow>
          (case js_or (j_token j) (j_data_token j) of
             Some tok \<Rightarrow> if tok \<noteq> [] then Inr tok else Inl TokenAbsent
           | None \<Rightarrow> Inl TokenAbsent))"

definition settle :: "result \<Rightarrow> system \<Rightarrow> system" where
  "settle res s =
     (case res of
        Inl e \<Rightarrow> s
      | Inr tok \<Rightarrow> s\<lparr>cachedToken := Some tok, tokenSetAtMs := now s\<rparr>)"

text \<open>
  The events of the server as far as the token is concerned: a request handler calls
  \<^verbatim>\<open>osLogin\<close>; time passes; the spacing timer fires; \<^verbatim>\<open>/login\<close> answers; the
  \<^verbatim>\<open>finally\<close> callback runs and the promise settles for everyone who awaits it; a
  handler that got a 401 clears the cache (lines 188 and 189). Each event is one turn of
  the event loop of the single thread: nothing else runs in the middle of it. The
  callers that await the promise resume after the callback has emptied
  \<^verbatim>\<open>loginInFlight\<close>, with the value the promise settled with; the log records that
  value at the callback.
\<close>

datatype event =
    Call caller
  | Advance nat
  | TimerFire
  | Reply answer
  | Finally
  | Invalidate

fun enabled :: "event \<Rightarrow> system \<Rightarrow> bool" where
  "enabled TimerFire s =
     (case loginInFlight s of Some (Sleeping due, ws) \<Rightarrow> True | _ \<Rightarrow> False)"
| "enabled (Reply r) s =
     (case loginInFlight s of Some (Fetching, ws) \<Rightarrow> True | _ \<Rightarrow> False)"
| "enabled Finally s =
     (case loginInFlight s of Some (Settled res, ws) \<Rightarrow> True | _ \<Rightarrow> False)"
| "enabled _ s = True"

fun step :: "config \<Rightarrow> event \<Rightarrow> system \<Rightarrow> system" where
  "step cfg (Call c) s =
     (case osLogin cfg c s of
        (Some res, s') \<Rightarrow> deliver c res s'
      | (None, s') \<Rightarrow> s')"
| "step cfg (Advance d) s = s\<lparr>now := now s + int d\<rparr>"
| "step cfg TimerFire s =
     (case loginInFlight s of
        Some (Sleeping due, ws) \<Rightarrow> (issue_login cfg s)\<lparr>loginInFlight := Some (Fetching, ws)\<rparr>
      | _ \<Rightarrow> s)"
| "step cfg (Reply r) s =
     (case loginInFlight s of
        Some (Fetching, ws) \<Rightarrow>
          (settle (login_outcome r) s)\<lparr>loginInFlight := Some (Settled (login_outcome r), ws)\<rparr>
      | _ \<Rightarrow> s)"
| "step cfg Finally s =
     (case loginInFlight s of
        Some (Settled res, ws) \<Rightarrow>
          s\<lparr>loginInFlight := None, delivered := delivered s @ map (\<lambda>c. (c, res)) ws\<rparr>
      | _ \<Rightarrow> s)"
| "step cfg Invalidate s = s\<lparr>cachedToken := None, tokenSetAtMs := 0\<rparr>"

text \<open>
  A schedule is a list of events; it is feasible when each event is enabled in the
  state it meets: the timer fires only for a block that sleeps, an answer comes only to
  a call that was issued, and the callback runs only for a block that has finished. The
  timer may fire at any time, also before it is due by the clock of \<^verbatim>\<open>Date.now()\<close>:
  the block does not look at the clock again when it wakes (line 115). The clock itself
  is taken not to step back: time passes by a natural number of milliseconds.
\<close>

fun run :: "config \<Rightarrow> event list \<Rightarrow> system \<Rightarrow> system" where
  "run cfg [] s = s"
| "run cfg (e # es) s = run cfg es (step cfg e s)"

fun feasible :: "config \<Rightarrow> event list \<Rightarrow> system \<Rightarrow> bool" where
  "feasible cfg [] s = True"
| "feasible cfg (e # es) s = (enabled e s \<and> feasible cfg es (step cfg e s))"

definition login_times :: "system \<Rightarrow> int list" where
  "login_times s = map fst (filter (\<lambda>(t, rq). case rq of Login u p \<Rightarrow> True | _ \<Rightarrow> False) (sent s))"

subsection \<open>A request served alone\<close>

text \<open>
  The handlers, for a request that the server serves alone: no other request is in
  progress, so \<^verbatim>\<open>loginInFlight\<close> is empty when the handler calls \<^verbatim>\<open>osLogin\<close>,
  timers fire when they are due, and the upstream decides the answer to the \<open>k\<close>-th
  request of the log and the time it takes.
\<close>

type_synonym net = "nat \<Rightarrow> answer \<times> nat"

definition osFetch :: "net \<Rightarrow> int request \<Rightarrow> system \<Rightarrow> answer \<times> system" where
  "osFetch net rq s =
     (case net (length (sent s)) of
        (a, lat) \<Rightarrow> (a, s\<lparr>sent := sent s @ [(now s, rq)], now := now s + int lat\<rparr>))"

text \<open>\<^verbatim>\<open>await osLogin()\<close>: the call, then the events that settle the promise.\<close>

definition await_osLogin :: "config \<Rightarrow> net \<Rightarrow> caller \<Rightarrow> system \<Rightarrow> result \<times> system" where
  "await_osLogin cfg net c s =
     (case osLogin cfg c s of
        (Some res, s1) \<Rightarrow> (res, deliver c res s1)
      | (None, s1) \<Rightarrow>
          (let s2 = (case loginInFlight s1 of
                       Some (Sleeping due, ws) \<Rightarrow> step cfg TimerFire (s1\<lparr>now := due\<rparr>)
                     | _ \<Rightarrow> s1);
               (a, lat) = net (length (sent s2) - 1);
               s3 = step cfg (Reply a) (s2\<lparr>now := now s2 + int lat\<rparr>)
           in (login_outcome a, step cfg Finally s3)))"

definition setCors :: "(string \<times> string) list" where
  "setCors =
     [(''access-control-allow-origin'', ''*''),
      (''access-control-allow-methods'', ''GET,POST,OPTIONS''),
      (''access-control-allow-headers'', ''Content-Type, Accept''),
      (''access-control-max-age'', ''600'')]"

definition sendJson :: "nat \<Rightarrow> payload \<Rightarrow> response" where
  "sendJson st obj =
     \<lparr>code = st, headers = setCors @ [(''content-type'', ''application/json; charset=utf-8'')],
      body = obj\<rparr>"

definition sendText :: "nat \<Rightarrow> string \<Rightarrow> response" where
  "sendText st t =
     \<lparr>code = st, headers = setCors @ [(''content-type'', ''text/plain; charset=utf-8'')],
      body = RawText t\<rparr>"

text \<open>\<^verbatim>\<open>msg || dflt\<close> on strings.\<close>

definition or_default :: "string \<Rightarrow> string \<Rightarrow> string" where
  "or_default msg dflt = (if msg \<noteq> [] then msg else dflt)"

text \<open>\<^verbatim>\<open>osHeaders({ authToken })\<close>: the bearer token, when there is one.\<close>

definition bearer :: "string \<Rightarrow> string option" where
  "bearer token = (if token \<noteq> [] then Some token else None)"

definition handleSubtitles ::
    "net \<Rightarrow> (string \<times> string) list \<Rightarrow> system \<Rightarrow> (error + response) \<times> system" where
  "handleSubtitles net qs s =
     (case osFetch net (Subtitles qs) s of
        (NetworkError, s1) \<Rightarrow> (Inl FetchFailed, s1)
      | (Answer r, s1) \<Rightarrow>
          if \<not> ok r then (Inr (sendJson (status r) (Message (or_default (os_msg r) ''OpenSubtitles error''))), s1)
          else
            (case (map_of (rheaders r) ''x-opensubtitles-message'', json r) of
               (Some osMsg, Some j) \<Rightarrow>
                 if osMsg \<noteq> [] then (Inr (sendJson 200 (Tagged j osMsg)), s1)
                 else (Inr (sendJson 200 (Data (Some j))), s1)
             | (_, Some j) \<Rightarrow> (Inr (sendJson 200 (Data (Some j))), s1)
             | (_, None) \<Rightarrow> (Inr (sendJson 200 (Data (Some empty_obj))), s1)))"

text \<open>Lines 198 to 213: the answer of \<^verbatim>\<open>/download\<close>, then the file behind the link.\<close>

definition download_link :: "reply \<Rightarrow> string option" where
  "download_link r =
     (if \<not> ok r then None
      else case json r of
        None \<Rightarrow> None
      | Some j \<Rightarrow> if truthy (j_link j) then j_link j else None)"

text \<open>
  The message of line 208, \<^verbatim>\<open>Telechargement du fichier echoue\<close> with its four acute
  accents: the letter e with acute accent is the character 0xE9.
\<close>

definition download_failed_message :: string where
  "download_failed_message =
     ''T'' @ [CHR 0xE9] @ ''l'' @ [CHR 0xE9] @ ''chargement du fichier '' @ [CHR 0xE9] @ ''chou'' @ [CHR 0xE9]"

definition fetch_file :: "net \<Rightarrow> reply \<Rightarrow> system \<Rightarrow> (error + response) \<times> system" where
  "fetch_file net out s =
     (case download_link out of
        None \<Rightarrow>
          (Inr (sendJson (if status out \<noteq> 0 then status out else 500)
                  (Message (or_default (os_msg out) ''OpenSubtitles download error''))), s)
      | Some link \<Rightarrow>
          (case osFetch net (FileGet link) s of
             (NetworkError, s1) \<Rightarrow> (Inl FetchFailed, s1)
           | (Answer fileRes, s1) \<Rightarrow>
               if \<not> ok fileRes
               then (Inr (sendJson (status fileRes)
                       (Message (or_default (rtxt fileRes) download_failed_message))), s1)
               else (Inr (sendText 200 (rtxt fileRes)), s1)))"

definition handleDownload ::
    "config \<Rightarrow> net \<Rightarrow> caller \<Rightarrow> download_body \<Rightarrow> system \<Rightarrow> (error + response) \<times> system" where
  "handleDownload cfg net c b s =
     (case file_id b of
        None \<Rightarrow> (Inr (sendJson 400 (Message ''file_id invalide'')), s)
      | Some fileId \<Rightarrow>
          if fileId \<le> 0 then (Inr (sendJson 400 (Message ''file_id invalide'')), s)
          else
            (let subFormat = (case sub_format b of None \<Rightarrow> ''srt'' | Some f \<Rightarrow> or_default f ''srt'') in
             case await_osLogin cfg net c s of
               (Inl e, s1) \<Rightarrow> (Inl e, s1)
             | (Inr token, s1) \<Rightarrow>
                 (case osFetch net (Download (bearer token) fileId subFormat) s1 of
                    (NetworkError, s2) \<Rightarrow> (Inl FetchFailed, s2)
                  | (Answer out, s2) \<Rightarrow>
                      if status out = 401
                      then
                        (case await_osLogin cfg net c (s2\<lparr>cachedToken := None, tokenSetAtMs := 0\<rparr>) of
                           (Inl e, s3) \<Rightarrow> (Inl e, s3)
                         | (Inr token2, s3) \<Rightarrow>
                             (case osFetch net (Download (bearer token2) fileId subFormat) s3 of
                                (NetworkError, s4) \<Rightarrow> (Inl FetchFailed, s4)
                              | (Answer out2, s4) \<Rightarrow> fetch_file net out2 s4))
                      else fetch_file net out s2)))"

text \<open>The callback of \<^verbatim>\<open>http.createServer\<close>: the routes, and the catch of line 240.\<close>

definition server :: "config \<Rightarrow> net \<Rightarrow> caller \<Rightarrow> http_request \<Rightarrow> system \<Rightarrow> response \<times> system" where
  "server cfg net c req s =
     (if req_method req = ''OPTIONS'' then (\<lparr>code = 204, headers = setCors, body = NoBody\<rparr>, s)
      else if pathname req = ''/os/health'' then (sendJson 200 OkTrue, s)
      else
        (case (if pathname req = ''/os/subtitles'' \<and> req_method req = ''GET''
               then handleSubtitles net (searchParams req) s
               else if pathname req = ''/os/download'' \<and> req_method req = ''POST''
               then handleDownload cfg net c (req_body req) s
               else (Inr (sendJson 404 (Message ''Not found'')), s)) of
           (Inl e, s1) \<Rightarrow> (sendJson 500 (Failure e), s1)
         | (Inr resp, s1) \<Rightarrow> (resp, s1)))"

section \<open>The worker: \<^verbatim>\<open>opensubtitles-proxy.worker.js\<close>\<close>

text \<open>
  The bindings of a worker: a variable that is not set is \<open>None\<close>. Both workers take
  the time from \<^verbatim>\<open>Date.now()\<close> once per login, the upstream decides the answer to the
  \<open>k\<close>-th request of the log, and the file id travels as the text of the parameter.
\<close>

record env =
  env_OS_API_KEY :: "string option"
  env_OS_USERNAME :: "string option"
  env_OS_PASSWORD :: "string option"

record worker =
  cachedToken_w :: "string option"
  tokenExpMs :: int
  sent_w :: "string request list"

definition text_of :: "string option \<Rightarrow> string" where
  "text_of v = (case v of None \<Rightarrow> [] | Some x \<Rightarrow> x)"

definition fetch_w :: "(nat \<Rightarrow> answer) \<Rightarrow> string request \<Rightarrow> worker \<Rightarrow> answer \<times> worker" where
  "fetch_w net rq w = (net (length (sent_w w)), w\<lparr>sent_w := sent_w w @ [rq]\<rparr>)"

definition corsHeaders :: "(string \<times> string) list" where
  "corsHeaders =
     [(''access-control-allow-origin'', ''*''),
      (''access-control-allow-methods'', ''GET,POST,OPTIONS''),
      (''access-control-allow-headers'', ''Content-Type''),
      (''access-control-max-age'', ''86400'')]"

text \<open>
  \<^verbatim>\<open>jsonResponse\<close>. The \<^verbatim>\<open>Response\<close> constructor of the platform is taken to accept
  the status it is given; the statuses it refuses with a body (204, 205, 304, or outside
  200 to 599) are not told apart here, nor in \<^verbatim>\<open>tronapp-subproxy\<close>.
\<close>

definition jsonResponse :: "payload \<Rightarrow> nat \<Rightarrow> response" where
  "jsonResponse obj st =
     \<lparr>code = st,
      headers = (''content-type'', ''application/json; charset=utf-8'') # corsHeaders,
      body = obj\<rparr>"

definition ensureToken ::
    "env \<Rightarrow> (nat \<Rightarrow> answer) \<Rightarrow> int \<Rightarrow> worker \<Rightarrow> (error + string option) \<times> worker" where
  "ensureToken env net t w =
     (if truthy (cachedToken_w w) \<and> tokenExpMs w - t > 60000 then (Inr (cachedToken_w w), w)
      else if \<not> truthy (env_OS_USERNAME env) \<or> \<not> truthy (env_OS_PASSWORD env) then (Inr None, w)
      else
        (case fetch_w net (Login (text_of (env_OS_USERNAME env)) (text_of (env_OS_PASSWORD env))) w of
           (NetworkError, w1) \<Rightarrow> (Inl FetchFailed, w1)
         | (Answer res, w1) \<Rightarrow>
             if \<not> ok res
             then (Inl (LoginFailed (status res)
                          (case json res of
                             None \<Rightarrow> None
                           | Some d \<Rightarrow> if truthy (j_message d) then j_message d else None)), w1)
             else
               (let tok = (case json res of
                             None \<Rightarrow> None
                           | Some d \<Rightarrow> if truthy (j_token d) then j_token d else None)
                in (Inr tok, w1\<lparr>cachedToken_w := tok, tokenExpMs := t + 12 * 60 * 60 * 1000\<rparr>))))"

fun pick :: "(string \<times> string) list \<Rightarrow> string list \<Rightarrow> string" where
  "pick obj [] = []"
| "pick obj (k # keys) =
     (case map_of obj k of
        None \<Rightarrow> pick obj keys
      | Some v \<Rightarrow> if trim v \<noteq> [] then trim v else pick obj keys)"

text \<open>Lines 94 to 124: the route \<^verbatim>\<open>/search\<close>.\<close>

definition search_params :: "(string \<times> string) list \<Rightarrow> (string \<times> string) list" where
  "search_params ps =
     filter (\<lambda>(k, v). v \<noteq> [])
       [(''query'', pick ps [''query'']),
        (''languages'', pick ps [''languages'', ''langs'']),
        (''tmdb_id'', pick ps [''tmdb_id'']),
        (''imdb_id'', pick ps [''imdb_id'']),
        (''season_number'', pick ps [''season_number'']),
        (''episode_number'', pick ps [''episode_number''])]"

definition worker_search ::
    "(nat \<Rightarrow> answer) \<Rightarrow> http_request \<Rightarrow> worker \<Rightarrow> (error + response) \<times> worker" where
  "worker_search net req w =
     (case fetch_w net (Subtitles (search_params (searchParams req))) w of
        (NetworkError, w1) \<Rightarrow> (Inl FetchFailed, w1)
      | (Answer res, w1) \<Rightarrow>
          if \<not> ok res
          then (Inr (jsonResponse
                  (Message (case json res of
                              None \<Rightarrow> ''Search failed''
                            | Some d \<Rightarrow> if truthy (j_message d) then text_of (j_message d)
                                        else ''Search failed''))
                  (status res)), w1)
          else (Inr (jsonResponse (Data (json res)) 200), w1))"

text \<open>Lines 126 to 169: the route \<^verbatim>\<open>/download-file\<close>.\<close>

definition worker_file_response :: "string \<Rightarrow> string \<Rightarrow> reply \<Rightarrow> response" where
  "worker_file_response format fileName fileRes =
     (let contentType = (if format = ''vtt'' then ''text/vtt; charset=utf-8''
                         else ''application/x-subrip; charset=utf-8'')
      in \<lparr>code = 200,
          headers = corsHeaders @
            [(''content-type'', contentType),
             (''content-disposition'', ''inline; filename='' @ quoted (strip_quotes fileName))],
          body = Stream (rtxt fileRes)\<rparr>)"

definition worker_download_file ::
    "env \<Rightarrow> (nat \<Rightarrow> answer) \<Rightarrow> int \<Rightarrow> http_request \<Rightarrow> worker \<Rightarrow> (error + response) \<times> worker" where
  "worker_download_file env net t req w =
     (let file_id = pick (searchParams req) [''file_id''];
          format = or_default (pick (searchParams req) [''format'']) ''srt''
      in if file_id = [] then (Inr (jsonResponse (Message ''Missing file_id'') 400), w)
         else
           (case ensureToken env net t w of
              (Inl e, w1) \<Rightarrow> (Inl e, w1)
            | (Inr token, w1) \<Rightarrow>
                (case fetch_w net (Download (if truthy token then token else None) file_id format) w1 of
                   (NetworkError, w2) \<Rightarrow> (Inl FetchFailed, w2)
                 | (Answer dlRes, w2) \<Rightarrow>
                     if \<not> ok dlRes
                     then (Inr (jsonResponse
                             (Message (case json dlRes of
                                         None \<Rightarrow> ''Download request failed''
                                       | Some d \<Rightarrow> if truthy (j_message d) then text_of (j_message d)
                                                   else ''Download request failed''))
                             (status dlRes)), w2)
                     else
                       (let link = (case json dlRes of
                                      None \<Rightarrow> None
                                    | Some d \<Rightarrow> if truthy (j_link d) then j_link d else None);
                            fileName = (case json dlRes of
                                          None \<Rightarrow> ''subtitle-'' @ file_id @ ''.'' @ format
                                        | Some d \<Rightarrow>
                                            if truthy (j_file_name d) then text_of (j_file_name d)
                                            else ''subtitle-'' @ file_id @ ''.'' @ format)
                        in case link of
                             None \<Rightarrow> (Inr (jsonResponse (Message ''No link returned by API'') 502), w2)
                           | Some l \<Rightarrow>
                               (case fetch_w net (FileGet l) w2 of
                                  (NetworkError, w3) \<Rightarrow> (Inl FetchFailed, w3)
                                | (Answer fileRes, w3) \<Rightarrow>
                                    if \<not> ok fileRes
                                    then (Inr (jsonResponse (Message ''Failed to fetch file'')
                                                 (status fileRes)), w3)
                                    else (Inr (worker_file_response format fileName fileRes), w3))))))"

text \<open>The handler \<^verbatim>\<open>fetch\<close> of the worker, with the catch of line 172.\<close>

definition worker_fetch ::
    "env \<Rightarrow> (nat \<Rightarrow> answer) \<Rightarrow> int \<Rightarrow> http_request \<Rightarrow> worker \<Rightarrow> response \<times> worker" where
  "worker_fetch env net t req w =
     (if req_method req = ''OPTIONS'' then (\<lparr>code = 204, headers = corsHeaders, body = NoBody\<rparr>, w)
      else
        (case (if pathname req = ''/search'' \<and> req_method req = ''GET''
               then worker_search net req w
               else if pathname req = ''/download-file'' \<and> req_method req = ''GET''
               then worker_download_file env net t req w
               else (Inr (jsonResponse (Message ''Not found'') 404), w)) of
           (Inl e, w1) \<Rightarrow> (jsonResponse (Failure e) 500, w1)
         | (Inr resp, w1) \<Rightarrow> (resp, w1)))"

section \<open>The worker \<^verbatim>\<open>tronapp-subproxy\<close>\<close>

record tronapp =
  cachedToken_t :: "string option"
  cachedTokenExpMs :: int
  sent_t :: "string request list"

definition CORS_HEADERS :: "(string \<times> string) list" where
  "CORS_HEADERS =
     [(''access-control-allow-origin'', ''*''),
      (''access-control-allow-methods'', ''GET,POST,OPTIONS''),
      (''access-control-allow-headers'', ''Content-Type,Authorization,Api-Key,X-User-Agent,User-Agent''),
      (''access-control-max-age'', ''86400'')]"

text \<open>\<^verbatim>\<open>headers.set(k, v)\<close>, and the loop that sets every CORS header.\<close>

definition set_header :: "string \<Rightarrow> string \<Rightarrow> (string \<times> string) list \<Rightarrow> (string \<times> string) list" where
  "set_header k v hs = (if k \<in> fst ` set hs then map (\<lambda>(k', v'). if k' = k then (k', v) else (k', v')) hs
                        else hs @ [(k, v)])"

definition set_cors :: "(string \<times> string) list \<Rightarrow> (string \<times> string) list" where
  "set_cors hs = fold (\<lambda>(k, v). set_header k v) CORS_HEADERS hs"

definition jsonResponse_t :: "payload \<Rightarrow> nat \<Rightarrow> response" where
  "jsonResponse_t obj st =
     \<lparr>code = st,
      headers = set_cors [(''content-type'', ''application/json; charset=utf-8'')],
      body = obj\<rparr>"

definition getEnvOrThrow :: "string option \<Rightarrow> string \<Rightarrow> error + string" where
  "getEnvOrThrow val key =
     (case val of
        None \<Rightarrow> Inl (MissingEnv key)
      | Some v \<Rightarrow> if v = [] \<or> trim v = [] then Inl (MissingEnv key) else Inr v)"

definition osFetch_t ::
    "env \<Rightarrow> (nat \<Rightarrow> answer) \<Rightarrow> string request \<Rightarrow> tronapp \<Rightarrow> (error + reply) \<times> tronapp" where
  "osFetch_t env net rq st =
     (case getEnvOrThrow (env_OS_API_KEY env) ''OS_API_KEY'' of
        Inl e \<Rightarrow> (Inl e, st)
      | Inr key \<Rightarrow>
          (case net (length (sent_t st)) of
             NetworkError \<Rightarrow> (Inl FetchFailed, st\<lparr>sent_t := sent_t st @ [rq]\<rparr>)
           | Answer r \<Rightarrow> (Inr r, st\<lparr>sent_t := sent_t st @ [rq]\<rparr>)))"

definition cached_t :: "int \<Rightarrow> tronapp \<Rightarrow> string option" where
  "cached_t t st =
     (if truthy (cachedToken_t st) \<and> cachedTokenExpMs st - t > 60000 then cachedToken_t st else None)"

definition login :: "env \<Rightarrow> (nat \<Rightarrow> answer) \<Rightarrow> int \<Rightarrow> tronapp \<Rightarrow> (error + string) \<times> tronapp" where
  "login env net t st =
     (case cached_t t st of
        Some tok \<Rightarrow> (Inr tok, st)
      | None \<Rightarrow>
          (case getEnvOrThrow (env_OS_USERNAME env) ''OS_USERNAME'' of
             Inl e \<Rightarrow> (Inl e, st)
           | Inr username \<Rightarrow>
               (case getEnvOrThrow (env_OS_PASSWORD env) ''OS_PASSWORD'' of
                  Inl e \<Rightarrow> (Inl e, st)
                | Inr password \<Rightarrow>
                    (case osFetch_t env net (Login username password) st of
                       (Inl e, st1) \<Rightarrow> (Inl e, st1)
                     | (Inr resp, st1) \<Rightarrow>
                         (let token = (case json resp of None \<Rightarrow> None | Some j \<Rightarrow> j_token j) in
                          if \<not> ok resp \<or> \<not> truthy token
                          then (Inl (LoginFailedBody (status resp) (rtxt resp)), st1)
                          else (Inr (text_of token),
                                st1\<lparr>cachedToken_t := token, cachedTokenExpMs := t + 10 * 60000\<rparr>))))))"

text \<open>\<^verbatim>\<open>searchParams.get(k) || dflt\<close>.\<close>

definition get_or :: "(string \<times> string) list \<Rightarrow> string \<Rightarrow> string \<Rightarrow> string" where
  "get_or ps k dflt = (case map_of ps k of None \<Rightarrow> dflt | Some v \<Rightarrow> or_default v dflt)"

definition handleSearch ::
    "env \<Rightarrow> (nat \<Rightarrow> answer) \<Rightarrow> http_request \<Rightarrow> tronapp \<Rightarrow> (error + response) \<times> tronapp" where
  "handleSearch env net req st =
     (let query = trim (get_or (searchParams req) ''query'' []);
          languages = trim (get_or (searchParams req) ''languages'' []);
          page = trim (get_or (searchParams req) ''page'' ''1'')
      in if query = [] then (Inr (jsonResponse_t (Message ''Missing query'') 400), st)
         else
           (let params = [(''query'', query)]
                  @ (if languages \<noteq> [] then [(''languages'', languages)] else [])
                  @ (if page \<noteq> [] then [(''page'', page)] else [])
            in case osFetch_t env net (Subtitles params) st of
                 (Inl e, st1) \<Rightarrow> (Inl e, st1)
               | (Inr resp, st1) \<Rightarrow>
                   (case json resp of
                      None \<Rightarrow> (Inr (jsonResponse_t (RawText (rtxt resp)) (status resp)), st1)
                    | Some d \<Rightarrow> (Inr (jsonResponse_t (Data (Some d)) (status resp)), st1))))"

text \<open>
  Lines 175 to 183: the headers of the file response, from those of the upstream file.
\<close>

definition file_headers :: "string \<Rightarrow> reply \<Rightarrow> (string \<times> string) list" where
  "file_headers disposition fileResp =
     (let h0 = rheaders fileResp;
          h1 = (if \<not> truthy (map_of h0 ''content-type'')
                then set_header ''content-type'' ''text/plain; charset=utf-8'' h0 else h0);
          h2 = set_header ''content-disposition'' disposition h1
      in set_cors h2)"

definition handleDownloadFile ::
    "(string \<Rightarrow> string option) \<Rightarrow> env \<Rightarrow> (nat \<Rightarrow> answer) \<Rightarrow> int \<Rightarrow> http_request \<Rightarrow> tronapp
      \<Rightarrow> (error + response) \<times> tronapp" where
  "handleDownloadFile decodeURIComponent env net t req st =
     (let fileId = map_of (searchParams req) ''file_id'';
          legacyUrl = map_of (searchParams req) ''url'';
          subFormat = or_default (get_or (searchParams req) ''sub_format'' []) 
                        (get_or (searchParams req) ''format'' ''srt'')
      in if \<not> truthy fileId \<and> truthy legacyUrl
         then
           (case decodeURIComponent (text_of legacyUrl) of
              None \<Rightarrow> (Inl URIError, st)
            | Some target \<Rightarrow>
                (case net (length (sent_t st)) of
                   NetworkError \<Rightarrow> (Inl FetchFailed, st\<lparr>sent_t := sent_t st @ [FileGet target]\<rparr>)
                 | Answer fileResp \<Rightarrow>
                     (Inr \<lparr>code = status fileResp,
                           headers = file_headers (''attachment; filename='' @ quoted (''subtitle.'' @ subFormat)) fileResp,
                           body = Stream (rtxt fileResp)\<rparr>,
                      st\<lparr>sent_t := sent_t st @ [FileGet target]\<rparr>)))
         else if \<not> truthy fileId then (Inr (jsonResponse_t (Message ''Missing file_id'') 400), st)
         else
           (case login env net t st of
              (Inl e, st1) \<Rightarrow> (Inl e, st1)
            | (Inr token, st1) \<Rightarrow>
                (case osFetch_t env net (Download (Some token) (text_of fileId) subFormat) st1 of
                   (Inl e, st2) \<Rightarrow> (Inl e, st2)
                 | (Inr dlResp, st2) \<Rightarrow>
                     (let link = (case json dlResp of None \<Rightarrow> None | Some j \<Rightarrow> j_link j) in
                      if \<not> ok dlResp \<or> \<not> truthy link
                      then (Inr (jsonResponse_t (Message ''OpenSubtitles download failed'')
                                   (if status dlResp \<noteq> 0 then status dlResp else 500)), st2)
                      else
                        (case net (length (sent_t st2)) of
                           NetworkError \<Rightarrow>
                             (Inl FetchFailed, st2\<lparr>sent_t := sent_t st2 @ [FileGet (text_of link)]\<rparr>)
                         | Answer fileResp \<Rightarrow>
                             (let file_name = (case json dlResp of None \<Rightarrow> None | Some j \<Rightarrow> j_file_name j);
                                  filename = strip_quotes
                                    (if truthy file_name then text_of file_name
                                     else ''subtitle.'' @ subFormat)
                              in (Inr \<lparr>code = status fileResp,
                                        headers = file_headers (''attachment; filename='' @ quoted filename) fileResp,
                                        body = Stream (rtxt fileResp)\<rparr>,
                                  st2\<lparr>sent_t := sent_t st2 @ [FileGet (text_of link)]\<rparr>)))))))"

section \<open>Notions used to state the properties\<close>

text \<open>Consecutive times in a list are at least \<open>g\<close> ms apart.\<close>

fun spaced_by :: "int \<Rightarrow> int list \<Rightarrow> bool" where
  "spaced_by g (a # b # ts) = (g \<le> b - a \<and> spaced_by g (b # ts))"
| "spaced_by g ts = True"

text \<open>
  In a schedule, every spacing timer fires at most \<open>k\<close> ms before it is due; with
  \<open>k = 0\<close> no timer fires early.
\<close>

fun timely :: "int \<Rightarrow> config \<Rightarrow> event list \<Rightarrow> system \<Rightarrow> bool" where
  "timely k cfg [] s = True"
| "timely k cfg (TimerFire # es) s =
     ((case loginInFlight s of Some (Sleeping due, ws) \<Rightarrow> due - k \<le> now s | _ \<Rightarrow> True) \<and>
      timely k cfg es (step cfg TimerFire s))"
| "timely k cfg (e # es) s = timely k cfg es (step cfg e s)"





text \<open>
  \<open>spacing_inv\<close>: the logins sent so far are spaced, the last one is the recorded
  attempt, and the timer of a sleeping block is due 1100 ms after it. \<open>stale_inv\<close>:
  while a login waits for its timer or its answer, no cached token is valid.
  \<open>creds_inv\<close>: without credentials nothing is cached and nothing is in flight.
  \<open>flight_inv\<close>: the login of a block that waits for its answer, or has finished, is
  the last request sent, at the time of the recorded attempt.
\<close>

definition flight_inv :: "config \<Rightarrow> system \<Rightarrow> bool" where
  "flight_inv cfg s =
     (case loginInFlight s of
        Some (Sleeping due, ws) \<Rightarrow> True
      | Some (ph, ws) \<Rightarrow>
          sent s \<noteq> [] \<and> last (sent s) = (lastLoginAtMs s, Login (OS_USERNAME cfg) (OS_PASSWORD cfg))
      | None \<Rightarrow> True)"

definition spacing_inv :: "int \<Rightarrow> system \<Rightarrow> bool" where
  "spacing_inv k s =
     (spaced_by (1100 - k) (login_times s) \<and>
      (login_times s \<noteq> [] \<longrightarrow> last (login_times s) = lastLoginAtMs s) \<and>
      (case loginInFlight s of
         Some (Sleeping due, ws) \<Rightarrow> due = lastLoginAtMs s + 1100
       | _ \<Rightarrow> True))"

definition stale_inv :: "system \<Rightarrow> bool" where
  "stale_inv s =
     (case loginInFlight s of
        Some (Sleeping due, ws) \<Rightarrow> cache_lookup s = None
      | Some (Fetching, ws) \<Rightarrow> cache_lookup s = None
      | _ \<Rightarrow> True)"

definition creds_inv :: "config \<Rightarrow> system \<Rightarrow> bool" where
  "creds_inv cfg s =
     (OS_USERNAME cfg = [] \<or> OS_PASSWORD cfg = [] \<longrightarrow> cachedToken s = None \<and> loginInFlight s = None)"

section \<open>Concrete scenarios\<close>

definition demo_cfg :: config where
  "demo_cfg = \<lparr>OS_USERNAME = ''user'', OS_PASSWORD = ''secret''\<rparr>"

definition blank_json :: json_obj where
  "blank_json = \<lparr>j_message = None, j_error = None, j_token = None, j_data_token = None,
     j_link = None, j_file_name = None\<rparr>"

definition token_reply :: "string \<Rightarrow> reply" where
  "token_reply tok =
     \<lparr>status = 200, rtxt = [], json = Some (blank_json\<lparr>j_token := Some tok\<rparr>), rheaders = []\<rparr>"

definition refusal :: "nat \<Rightarrow> string \<Rightarrow> reply" where
  "refusal st msg =
     \<lparr>status = st, rtxt = msg, json = Some (blank_json\<lparr>j_message := Some msg\<rparr>), rheaders = []\<rparr>"

definition link_reply :: "string \<Rightarrow> string option \<Rightarrow> reply" where
  "link_reply l fn =
     \<lparr>status = 200, rtxt = [], json = Some (blank_json\<lparr>j_link := Some l, j_file_name := fn\<rparr>),
      rheaders = []\<rparr>"

definition file_reply :: "string \<Rightarrow> reply" where
  "file_reply content = \<lparr>status = 200, rtxt = content, json = None, rheaders = []\<rparr>"

definition empty_reply :: reply where
  "empty_reply = \<lparr>status = 200, rtxt = [], json = Some blank_json, rheaders = []\<rparr>"

text \<open>
  An upstream that logs the server in, answers 401 to \<^verbatim>\<open>/download\<close>, logs it in
  again and then refuses the download with 403.
\<close>

definition retry_net :: net where
  "retry_net k =
     (if k = 0 then (Answer (token_reply ''t1''), 10)
      else if k = 1 then (Answer (refusal 401 ''expired''), 10)
      else if k = 2 then (Answer (token_reply ''t2''), 10)
      else (Answer (refusal 403 ''forbidden''), 10))"

text \<open>The same, but the second download is granted and the file is there.\<close>

definition retry_ok_net :: net where
  "retry_ok_net k =
     (if k = 0 then (Answer (token_reply ''t1''), 10)
      else if k = 1 then (Answer (refusal 401 ''expired''), 10)
      else if k = 2 then (Answer (token_reply ''t2''), 10)
      else if k = 3 then (Answer (link_reply ''https://files.example/1'' None), 10)
      else (Answer (file_reply ''subtitle text''), 10))"

definition demo_body :: download_body where
  "demo_body = \<lparr>file_id = Some 12345, sub_format = Some ''srt''\<rparr>"

text \<open>A worker without credentials, and an upstream that gives a link and then the file.\<close>

definition anonymous_env :: env where
  "anonymous_env = \<lparr>env_OS_API_KEY = Some ''key'', env_OS_USERNAME = None, env_OS_PASSWORD = None\<rparr>"

definition user_env :: env where
  "user_env = \<lparr>env_OS_API_KEY = Some ''key'', env_OS_USERNAME = Some ''user'',
     env_OS_PASSWORD = Some ''secret''\<rparr>"

definition file_net :: "nat \<Rightarrow> answer" where
  "file_net k =
     (if k = 0 then Answer (link_reply ''https://files.example/1'' (Some ''movie.srt''))
      else Answer (file_reply ''subtitle text''))"

definition login_file_net :: "nat \<Rightarrow> answer" where
  "login_file_net k =
     (if k = 0 then Answer (token_reply ''t1'')
      else if k = 1 then Answer (link_reply ''https://files.example/1'' (Some ''movie.srt''))
      else Answer (file_reply ''subtitle text''))"

text \<open>An upstream that gives a link without a file name.\<close>

definition nameless_net :: "nat \<Rightarrow> answer" where
  "nameless_net k =
     (if k = 0 then Answer (token_reply ''t1'')
      else if k = 1 then Answer (link_reply ''https://files.example/1'' None)
      else Answer (file_reply ''subtitle text''))"

text \<open>A worker whose cached token has expired.\<close>

definition stale_worker :: worker where
  "stale_worker = \<lparr>cachedToken_w = Some ''old'', tokenExpMs = 0, sent_w = []\<rparr>"

definition fresh_worker :: worker where
  "fresh_worker = \<lparr>cachedToken_w = None, tokenExpMs = 0, sent_w = []\<rparr>"

definition fresh_tronapp :: tronapp where
  "fresh_tronapp = \<lparr>cachedToken_t = None, cachedTokenExpMs = 0, sent_t = []\<rparr>"

definition get_request :: "string \<Rightarrow> (string \<times> string) list \<Rightarrow> http_request" where
  "get_request path ps =
     \<lparr>req_method = ''GET'', pathname = path, searchParams = ps,
      req_body = \<lparr>file_id = None, sub_format = None\<rparr>\<rparr>"

section \<open>Lemmas about the server\<close>

lemmas scenario_defs = demo_cfg_def blank_json_def token_reply_def refusal_def link_reply_def
  file_reply_def empty_reply_def demo_body_def

lemmas server_defs = init_def osLogin_def start_login_def issue_login_def cache_lookup_def
  truthy_def js_or_def deliver_def settle_def ok_def os_msg_def login_times_def Let_def

lemma cache_lookup_ghost [simp]:
  "cache_lookup (s\<lparr>loginInFlight := x\<rparr>) = cache_lookup s"
  "cache_lookup (s\<lparr>delivered := d\<rparr>) = cache_lookup s"
  "cache_lookup (s\<lparr>sent := n\<rparr>) = cache_lookup s"
  "cache_lookup (s\<lparr>lastLoginAtMs := l\<rparr>) = cache_lookup s"
  by (simp_all add: cache_lookup_def)

lemma cache_lookup_advance:
  "cache_lookup s = None \<Longrightarrow> cache_lookup (s\<lparr>now := now s + int d\<rparr>) = None"
  by (auto simp: cache_lookup_def Let_def split: if_splits)


lemma cache_lookup_later:
  "cache_lookup s = None \<Longrightarrow> cachedToken s' = cachedToken s \<Longrightarrow>
     tokenSetAtMs s' = tokenSetAtMs s \<Longrightarrow> now s \<le> now s' \<Longrightarrow> cache_lookup s' = None"
  by (auto simp: cache_lookup_def Let_def split: if_splits)

lemma cache_lookup_invalidate:
  "cache_lookup (s\<lparr>cachedToken := None, tokenSetAtMs := 0\<rparr>) = None"
  by (simp add: cache_lookup_def truthy_def)

lemma cache_lookup_Some:
  "cache_lookup s = Some tok \<longleftrightarrow>
     cachedToken s = Some tok \<and> tok \<noteq> [] \<and> now s - tokenSetAtMs s < 8 * 60 * 60 * 1000"
  by (auto simp: cache_lookup_def truthy_def Let_def split: option.splits)

lemma login_outcome_token: "login_outcome a = Inr tok \<Longrightarrow> tok \<noteq> []"
  by (cases a) (auto simp: js_or_def truthy_def split: if_splits option.splits)




lemma invariant_run:
  assumes "\<And>e s. I s \<Longrightarrow> enabled e s \<Longrightarrow> I (step cfg e s)"
  shows "I s \<Longrightarrow> feasible cfg es s \<Longrightarrow> I (run cfg es s)"
  by (induction es arbitrary: s) (auto intro: assms)

subsection \<open>One login for all the callers\<close>








subsection \<open>Invariants of the reachable states\<close>

lemma spaced_by_snoc:
  "spaced_by g ts \<Longrightarrow> ts = [] \<or> g \<le> t - last ts \<Longrightarrow> spaced_by g (ts @ [t])"
  by (induction g ts rule: spaced_by.induct) auto

lemma timely_Cons:
  "timely k cfg (e # es) s = (timely k cfg [e] s \<and> timely k cfg es (step cfg e s))"
  by (cases e) simp_all

lemma spacing_inv_step:
  "0 \<le> k \<Longrightarrow> spacing_inv k s \<Longrightarrow> timely k cfg [e] s \<Longrightarrow> spacing_inv k (step cfg e s)"
  by (cases e)
    (auto simp: spacing_inv_def osLogin_def start_login_def Let_def deliver_def login_times_def
      issue_login_def settle_def
      split: option.splits phase.splits sum.splits prod.splits if_splits intro!: spaced_by_snoc)

lemma spacing_inv_init: "spacing_inv k (init t0)"
  by (simp add: spacing_inv_def init_def login_times_def)

lemma spacing_inv_run:
  "0 \<le> k \<Longrightarrow> spacing_inv k s \<Longrightarrow> timely k cfg es s \<Longrightarrow> spacing_inv k (run cfg es s)"
proof (induction es arbitrary: s)
  case Nil
  then show ?case by simp
next
  case (Cons e es)
  from Cons.prems(3) have t: "timely k cfg [e] s" "timely k cfg es (step cfg e s)"
    using timely_Cons [of k cfg e es s] by simp_all
  from spacing_inv_step [OF Cons.prems(1,2) t(1)] have "spacing_inv k (step cfg e s)" .
  from Cons.IH [OF Cons.prems(1) this t(2)] show ?case by simp
qed

lemma stale_inv_step:
  "stale_inv s \<Longrightarrow> enabled e s \<Longrightarrow> stale_inv (step cfg e s)"
  by (cases e)
    (auto simp: stale_inv_def osLogin_def start_login_def Let_def deliver_def
      issue_login_def settle_def cache_lookup_advance cache_lookup_invalidate
      split: option.splits phase.splits sum.splits prod.splits if_splits)

lemma stale_inv_init: "stale_inv (init t0)"
  by (simp add: stale_inv_def init_def)

lemma creds_inv_step:
  "creds_inv cfg s \<Longrightarrow> enabled e s \<Longrightarrow> creds_inv cfg (step cfg e s)"
  by (cases e)
    (auto simp: creds_inv_def osLogin_def deliver_def
      split: option.splits phase.splits sum.splits prod.splits if_splits)

lemma creds_inv_init: "creds_inv cfg (init t0)"
  by (simp add: creds_inv_def init_def)

lemma flight_inv_step:
  "flight_inv cfg s \<Longrightarrow> enabled e s \<Longrightarrow> flight_inv cfg (step cfg e s)"
  by (cases e)
    (auto simp: flight_inv_def osLogin_def start_login_def Let_def deliver_def
      issue_login_def settle_def
      split: option.splits phase.splits sum.splits prod.splits if_splits)

lemma flight_inv_init: "flight_inv cfg (init t0)"
  by (simp add: flight_inv_def init_def)

lemma reachable_creds:
  "feasible cfg es (init t0) \<Longrightarrow> creds_inv cfg (run cfg es (init t0))"
  using invariant_run [of "creds_inv cfg" cfg, OF creds_inv_step creds_inv_init] .

lemma reachable_stale:
  "feasible cfg es (init t0) \<Longrightarrow> stale_inv (run cfg es (init t0))"
  using invariant_run [of stale_inv cfg, OF stale_inv_step stale_inv_init] .

lemma reachable_flight:
  "feasible cfg es (init t0) \<Longrightarrow> flight_inv cfg (run cfg es (init t0))"
  using invariant_run [of "flight_inv cfg" cfg, OF flight_inv_step flight_inv_init] .

lemma timer_sends:
  assumes "loginInFlight s = Some (Sleeping due, ws)"
  shows "feasible cfg [Advance d, TimerFire] s \<and>
         sent (run cfg [Advance d, TimerFire] s)
           = sent s @ [(now s + int d, Login (OS_USERNAME cfg) (OS_PASSWORD cfg))]"
  using assms by (simp add: issue_login_def)

text \<open>
  C4, as the code does it. The clock does not step back. In an execution of the server
  from its start where every spacing timer fires at most \<open>k\<close> ms before it is due, the
  times at which the logins are sent to \<^verbatim>\<open>/login\<close> are at least \<open>1100 - k\<close> ms apart,
  whatever the number of callers: at least 1100 ms when no timer fires early. The
  attempt recorded in \<^verbatim>\<open>lastLoginAtMs\<close> is the time of the last login sent, recorded
  before its outcome is known, and the timer of a sleeping block is due 1100 ms after
  it. A call that has to log in less than 1100 ms after the last attempt sends nothing
  and sleeps on that timer; the login leaves when the timer fires, at whatever time
  that is, and the spacing is not checked again.
\<close>

theorem login_attempts_spaced:
  assumes "feasible cfg es (init t0)" and "timely k cfg es (init t0)" and "0 \<le> k"
  shows "spaced_by (1100 - k) (login_times (run cfg es (init t0))) \<and>
         (login_times (run cfg es (init t0)) \<noteq> [] \<longrightarrow>
            lastLoginAtMs (run cfg es (init t0)) = last (login_times (run cfg es (init t0)))) \<and>
         (case loginInFlight (run cfg es (init t0)) of
            Some (Sleeping due, ws) \<Rightarrow> due = lastLoginAtMs (run cfg es (init t0)) + 1100
          | _ \<Rightarrow> True) \<and>
         (OS_USERNAME cfg \<noteq> [] \<and> OS_PASSWORD cfg \<noteq> [] \<and> cache_lookup s = None \<and>
          loginInFlight s = None \<and> now s - lastLoginAtMs s < 1100 \<longrightarrow>
            osLogin cfg c s = (None, s\<lparr>loginInFlight := Some (Sleeping (lastLoginAtMs s + 1100), [c])\<rparr>) \<and>
            feasible cfg [Advance d, TimerFire] (snd (osLogin cfg c s)) \<and>
            sent (run cfg [Advance d, TimerFire] (snd (osLogin cfg c s)))
              = sent s @ [(now s + int d, Login (OS_USERNAME cfg) (OS_PASSWORD cfg))])"
proof -
  have "spacing_inv k (run cfg es (init t0))"
    using spacing_inv_run [OF assms(3) spacing_inv_init assms(2)] .
  then have a: "spaced_by (1100 - k) (login_times (run cfg es (init t0))) \<and>
         (login_times (run cfg es (init t0)) \<noteq> [] \<longrightarrow>
            lastLoginAtMs (run cfg es (init t0)) = last (login_times (run cfg es (init t0)))) \<and>
         (case loginInFlight (run cfg es (init t0)) of
            Some (Sleeping due, ws) \<Rightarrow> due = lastLoginAtMs (run cfg es (init t0)) + 1100
          | _ \<Rightarrow> True)"
    by (auto simp: spacing_inv_def split: option.splits phase.splits)
  have b: "OS_USERNAME cfg \<noteq> [] \<and> OS_PASSWORD cfg \<noteq> [] \<and> cache_lookup s = None \<and>
          loginInFlight s = None \<and> now s - lastLoginAtMs s < 1100 \<longrightarrow>
            osLogin cfg c s = (None, s\<lparr>loginInFlight := Some (Sleeping (lastLoginAtMs s + 1100), [c])\<rparr>) \<and>
            feasible cfg [Advance d, TimerFire] (snd (osLogin cfg c s)) \<and>
            sent (run cfg [Advance d, TimerFire] (snd (osLogin cfg c s)))
              = sent s @ [(now s + int d, Login (OS_USERNAME cfg) (OS_PASSWORD cfg))]"
    by (auto simp: osLogin_def start_login_def issue_login_def Let_def)
  from a b show ?thesis by blast
qed

text \<open>
  A login refused at time 5000, a second call at once: it sleeps, its timer fires on
  time, and the second login leaves at 6100.
\<close>

theorem login_attempts_spaced_witness:
  "feasible demo_cfg [Call 1, Reply (Answer (refusal 403 ''no'')), Finally, Call 2, Advance 1100,
      TimerFire, Reply (Answer (token_reply ''tok'')), Finally] (init 5000) \<and>
   timely 0 demo_cfg [Call 1, Reply (Answer (refusal 403 ''no'')), Finally, Call 2, Advance 1100,
      TimerFire, Reply (Answer (token_reply ''tok'')), Finally] (init 5000) \<and>
   login_times (run demo_cfg [Call 1, Reply (Answer (refusal 403 ''no'')), Finally, Call 2, Advance 1100,
      TimerFire, Reply (Answer (token_reply ''tok'')), Finally] (init 5000)) = [5000, 6100] \<and>
   spaced_by (1100 - 0) [5000, 6100] \<and>
   lastLoginAtMs (run demo_cfg [Call 1, Reply (Answer (refusal 403 ''no'')), Finally, Call 2, Advance 1100,
      TimerFire, Reply (Answer (token_reply ''tok'')), Finally] (init 5000)) = 6100 \<and>
   osLogin demo_cfg 2 (run demo_cfg [Call 1, Reply (Answer (refusal 403 ''no'')), Finally] (init 5000))
     = (None, (run demo_cfg [Call 1, Reply (Answer (refusal 403 ''no'')), Finally] (init 5000))
          \<lparr>loginInFlight := Some (Sleeping 6100, [2])\<rparr>)"
proof -
  let ?es = "[Call 1, Reply (Answer (refusal 403 ''no'')), Finally, Call 2, Advance 1100,
      TimerFire, Reply (Answer (token_reply ''tok'')), Finally]"
  let ?s = "run demo_cfg [Call 1, Reply (Answer (refusal 403 ''no'')), Finally] (init 5000)"
  have f: "feasible demo_cfg ?es (init 5000)"
    by (simp add: scenario_defs server_defs)
  have y: "timely 0 demo_cfg ?es (init 5000)"
    by (simp add: scenario_defs server_defs)
  have t: "login_times (run demo_cfg ?es (init 5000)) = [5000, 6100]"
    by (simp add: scenario_defs server_defs)
  have l: "lastLoginAtMs (run demo_cfg ?es (init 5000)) = 6100"
    by (simp add: scenario_defs server_defs)
  have s: "OS_USERNAME demo_cfg \<noteq> [] \<and> OS_PASSWORD demo_cfg \<noteq> [] \<and> cache_lookup ?s = None \<and>
      loginInFlight ?s = None \<and> now ?s - lastLoginAtMs ?s < 1100 \<and> lastLoginAtMs ?s + 1100 = 6100"
    by (simp add: scenario_defs server_defs)
  from login_attempts_spaced [OF f y, of ?s 2 0] t l s f y show ?thesis
    by (simp del: run.simps feasible.simps timely.simps)
qed

text \<open>
  The sentence of the specification does not hold when the timer fires early: the block
  that sleeps until 6100 is woken at 6099, one millisecond before its timer is due, and
  the second login leaves 1099 ms after the first.
\<close>

theorem early_timer_counterexample:
  "feasible demo_cfg [Call 1, Reply (Answer (refusal 403 ''no'')), Finally, Call 2, Advance 1099,
      TimerFire] (init 5000) \<and>
   loginInFlight (run demo_cfg [Call 1, Reply (Answer (refusal 403 ''no'')), Finally, Call 2] (init 5000))
     = Some (Sleeping 6100, [2]) \<and>
   login_times (run demo_cfg [Call 1, Reply (Answer (refusal 403 ''no'')), Finally, Call 2, Advance 1099,
      TimerFire] (init 5000)) = [5000, 6099] \<and>
   \<not> spaced_by 1100 (login_times (run demo_cfg [Call 1, Reply (Answer (refusal 403 ''no'')), Finally,
      Call 2, Advance 1099, TimerFire] (init 5000)))"
  by (simp add: scenario_defs server_defs)

text \<open>
  C3. In every state the server can reach: a token is served from the cache exactly when
  one is stored and less than eight hours old; a call made then returns that token at
  once and changes nothing, so it sends no request. A call made when there is none (the
  credentials being configured) does not return at once: it awaits a login. With no
  login in flight it starts one: the login is sent at once when 1100 ms have passed
  since the last attempt, and otherwise when the timer of the block fires. With a login
  in flight it joins it: that login sleeps and is sent when its timer fires, or it is
  the last request that was sent. The worker \<^verbatim>\<open>opensubtitles-proxy.worker.js\<close>
  returns its cached token without a request while more than a minute of its twelve
  hours is left, and after that sends a login (when it has credentials).
\<close>

theorem token_reuse:
  assumes "feasible cfg es (init t0)" and "s = run cfg es (init t0)"
  shows "(cache_lookup s = Some tok \<longleftrightarrow>
            cachedToken s = Some tok \<and> tok \<noteq> [] \<and> now s - tokenSetAtMs s < 8 * 60 * 60 * 1000) \<and>
         (cache_lookup s = Some tok \<longrightarrow> osLogin cfg c s = (Some (Inr tok), s)) \<and>
         (cache_lookup s = None \<and> OS_USERNAME cfg \<noteq> [] \<and> OS_PASSWORD cfg \<noteq> [] \<longrightarrow>
            fst (osLogin cfg c s) = None \<and>
            (\<exists>ph ws. loginInFlight (snd (osLogin cfg c s)) = Some (ph, ws @ [c])) \<and>
            (case loginInFlight s of
               None \<Rightarrow>
                 if now s - lastLoginAtMs s < 1100
                 then snd (osLogin cfg c s)
                        = s\<lparr>loginInFlight := Some (Sleeping (lastLoginAtMs s + 1100), [c])\<rparr> \<and>
                      sent (run cfg [Advance d, TimerFire] (snd (osLogin cfg c s)))
                        = sent s @ [(now s + int d, Login (OS_USERNAME cfg) (OS_PASSWORD cfg))]
                 else snd (osLogin cfg c s)
                        = s\<lparr>lastLoginAtMs := now s,
                            sent := sent s @ [(now s, Login (OS_USERNAME cfg) (OS_PASSWORD cfg))],
                            loginInFlight := Some (Fetching, [c])\<rparr>
             | Some (Sleeping due, ws) \<Rightarrow>
                 snd (osLogin cfg c s) = s\<lparr>loginInFlight := Some (Sleeping due, ws @ [c])\<rparr> \<and>
                 sent (run cfg [Advance d, TimerFire] (snd (osLogin cfg c s)))
                   = sent s @ [(now s + int d, Login (OS_USERNAME cfg) (OS_PASSWORD cfg))]
             | Some (ph, ws) \<Rightarrow>
                 snd (osLogin cfg c s) = s\<lparr>loginInFlight := Some (ph, ws @ [c])\<rparr> \<and>
                 sent s \<noteq> [] \<and>
                 last (sent s) = (lastLoginAtMs s, Login (OS_USERNAME cfg) (OS_PASSWORD cfg)))) \<and>
         (truthy (cachedToken_w w) \<and> tokenExpMs w - t > 60000 \<longrightarrow>
            ensureToken env net t w = (Inr (cachedToken_w w), w)) \<and>
         (\<not> (truthy (cachedToken_w w) \<and> tokenExpMs w - t > 60000) \<and>
          truthy (env_OS_USERNAME env) \<and> truthy (env_OS_PASSWORD env) \<longrightarrow>
            sent_w (snd (ensureToken env net t w))
              = sent_w w @ [Login (text_of (env_OS_USERNAME env)) (text_of (env_OS_PASSWORD env))])"
proof -
  have "creds_inv cfg s"
    unfolding assms(2) using reachable_creds [OF assms(1)] .
  then have "cache_lookup s = Some tok \<Longrightarrow> OS_USERNAME cfg \<noteq> [] \<and> OS_PASSWORD cfg \<noteq> []"
    by (auto simp: creds_inv_def cache_lookup_Some)
  then have hit: "cache_lookup s = Some tok \<longrightarrow> osLogin cfg c s = (Some (Inr tok), s)"
    by (auto simp: osLogin_def)
  have fl: "flight_inv cfg s"
    unfolding assms(2) using reachable_flight [OF assms(1)] .
  have miss: "cache_lookup s = None \<and> OS_USERNAME cfg \<noteq> [] \<and> OS_PASSWORD cfg \<noteq> [] \<longrightarrow>
            fst (osLogin cfg c s) = None \<and>
            (\<exists>ph ws. loginInFlight (snd (osLogin cfg c s)) = Some (ph, ws @ [c])) \<and>
            (case loginInFlight s of
               None \<Rightarrow>
                 if now s - lastLoginAtMs s < 1100
                 then snd (osLogin cfg c s)
                        = s\<lparr>loginInFlight := Some (Sleeping (lastLoginAtMs s + 1100), [c])\<rparr> \<and>
                      sent (run cfg [Advance d, TimerFire] (snd (osLogin cfg c s)))
                        = sent s @ [(now s + int d, Login (OS_USERNAME cfg) (OS_PASSWORD cfg))]
                 else snd (osLogin cfg c s)
                        = s\<lparr>lastLoginAtMs := now s,
                            sent := sent s @ [(now s, Login (OS_USERNAME cfg) (OS_PASSWORD cfg))],
                            loginInFlight := Some (Fetching, [c])\<rparr>
             | Some (Sleeping due, ws) \<Rightarrow>
                 snd (osLogin cfg c s) = s\<lparr>loginInFlight := Some (Sleeping due, ws @ [c])\<rparr> \<and>
                 sent (run cfg [Advance d, TimerFire] (snd (osLogin cfg c s)))
                   = sent s @ [(now s + int d, Login (OS_USERNAME cfg) (OS_PASSWORD cfg))]
             | Some (ph, ws) \<Rightarrow>
                 snd (osLogin cfg c s) = s\<lparr>loginInFlight := Some (ph, ws @ [c])\<rparr> \<and>
                 sent s \<noteq> [] \<and>
                 last (sent s) = (lastLoginAtMs s, Login (OS_USERNAME cfg) (OS_PASSWORD cfg)))"
  proof (intro impI)
    assume a: "cache_lookup s = None \<and> OS_USERNAME cfg \<noteq> [] \<and> OS_PASSWORD cfg \<noteq> []"
    show "fst (osLogin cfg c s) = None \<and>
            (\<exists>ph ws. loginInFlight (snd (osLogin cfg c s)) = Some (ph, ws @ [c])) \<and>
            (case loginInFlight s of
               None \<Rightarrow>
                 if now s - lastLoginAtMs s < 1100
                 then snd (osLogin cfg c s)
                        = s\<lparr>loginInFlight := Some (Sleeping (lastLoginAtMs s + 1100), [c])\<rparr> \<and>
                      sent (run cfg [Advance d, TimerFire] (snd (osLogin cfg c s)))
                        = sent s @ [(now s + int d, Login (OS_USERNAME cfg) (OS_PASSWORD cfg))]
                 else snd (osLogin cfg c s)
                        = s\<lparr>lastLoginAtMs := now s,
                            sent := sent s @ [(now s, Login (OS_USERNAME cfg) (OS_PASSWORD cfg))],
                            loginInFlight := Some (Fetching, [c])\<rparr>
             | Some (Sleeping due, ws) \<Rightarrow>
                 snd (osLogin cfg c s) = s\<lparr>loginInFlight := Some (Sleeping due, ws @ [c])\<rparr> \<and>
                 sent (run cfg [Advance d, TimerFire] (snd (osLogin cfg c s)))
                   = sent s @ [(now s + int d, Login (OS_USERNAME cfg) (OS_PASSWORD cfg))]
             | Some (ph, ws) \<Rightarrow>
                 snd (osLogin cfg c s) = s\<lparr>loginInFlight := Some (ph, ws @ [c])\<rparr> \<and>
                 sent s \<noteq> [] \<and>
                 last (sent s) = (lastLoginAtMs s, Login (OS_USERNAME cfg) (OS_PASSWORD cfg)))"
    proof (cases "loginInFlight s")
      case None
      with a show ?thesis
        by (simp add: osLogin_def start_login_def issue_login_def Let_def)
    next
      case (Some pw)
      obtain ph ws where pw: "pw = (ph, ws)" by (cases pw)
      from a Some pw fl show ?thesis
        by (cases ph) (simp_all add: osLogin_def issue_login_def flight_inv_def)
    qed
  qed
  have w1: "truthy (cachedToken_w w) \<and> tokenExpMs w - t > 60000 \<longrightarrow>
            ensureToken env net t w = (Inr (cachedToken_w w), w)"
    by (simp add: ensureToken_def)
  have w2: "\<not> (truthy (cachedToken_w w) \<and> tokenExpMs w - t > 60000) \<and>
          truthy (env_OS_USERNAME env) \<and> truthy (env_OS_PASSWORD env) \<longrightarrow>
            sent_w (snd (ensureToken env net t w))
              = sent_w w @ [Login (text_of (env_OS_USERNAME env)) (text_of (env_OS_PASSWORD env))]"
    by (auto simp: ensureToken_def fetch_w_def Let_def split: answer.splits)
  from hit miss w1 w2 show ?thesis
    using cache_lookup_Some [of s tok] by blast
qed

text \<open>
  A token stored at 5000 is returned without a request one second later; eight hours
  later a call sends a new login at once. The worker does the same around its own
  window.
\<close>

theorem token_reuse_witness:
  "feasible demo_cfg [Call 1, Reply (Answer (token_reply ''tok'')), Finally, Advance 1000] (init 5000) \<and>
   cache_lookup (run demo_cfg [Call 1, Reply (Answer (token_reply ''tok'')), Finally, Advance 1000] (init 5000))
     = Some ''tok'' \<and>
   osLogin demo_cfg 2 (run demo_cfg [Call 1, Reply (Answer (token_reply ''tok'')), Finally, Advance 1000] (init 5000))
     = (Some (Inr ''tok''),
        run demo_cfg [Call 1, Reply (Answer (token_reply ''tok'')), Finally, Advance 1000] (init 5000)) \<and>
   feasible demo_cfg [Call 1, Reply (Answer (token_reply ''tok'')), Finally, Advance 28800000] (init 5000) \<and>
   cache_lookup (run demo_cfg [Call 1, Reply (Answer (token_reply ''tok'')), Finally, Advance 28800000] (init 5000))
     = None \<and>
   fst (osLogin demo_cfg 2
     (run demo_cfg [Call 1, Reply (Answer (token_reply ''tok'')), Finally, Advance 28800000] (init 5000))) = None \<and>
   sent (snd (osLogin demo_cfg 2
     (run demo_cfg [Call 1, Reply (Answer (token_reply ''tok'')), Finally, Advance 28800000] (init 5000))))
     = [(5000, Login ''user'' ''secret''), (28805000, Login ''user'' ''secret'')] \<and>
   ensureToken user_env (\<lambda>k. NetworkError) 1000 \<lparr>cachedToken_w = Some ''tok'', tokenExpMs = 43200000, sent_w = []\<rparr>
     = (Inr (Some ''tok''), \<lparr>cachedToken_w = Some ''tok'', tokenExpMs = 43200000, sent_w = []\<rparr>) \<and>
   sent_w (snd (ensureToken user_env (\<lambda>k. NetworkError) 43140000
       \<lparr>cachedToken_w = Some ''tok'', tokenExpMs = 43200000, sent_w = []\<rparr>)) = [Login ''user'' ''secret'']"
proof -
  let ?es = "[Call 1, Reply (Answer (token_reply ''tok'')), Finally, Advance 1000]"
  let ?es' = "[Call 1, Reply (Answer (token_reply ''tok'')), Finally, Advance 28800000]"
  let ?w = "\<lparr>cachedToken_w = Some ''tok'', tokenExpMs = 43200000, sent_w = []\<rparr>"
  have f: "feasible demo_cfg ?es (init 5000)" "feasible demo_cfg ?es' (init 5000)"
    by (simp_all add: scenario_defs server_defs)
  have c: "cache_lookup (run demo_cfg ?es (init 5000)) = Some ''tok''"
    "cache_lookup (run demo_cfg ?es' (init 5000)) = None"
    "OS_USERNAME demo_cfg \<noteq> [] \<and> OS_PASSWORD demo_cfg \<noteq> []"
    by (simp_all add: scenario_defs server_defs)
  have n: "loginInFlight (run demo_cfg ?es' (init 5000)) = None"
    "\<not> now (run demo_cfg ?es' (init 5000)) - lastLoginAtMs (run demo_cfg ?es' (init 5000)) < 1100"
    "now (run demo_cfg ?es' (init 5000)) = 28805000"
    "sent (run demo_cfg ?es' (init 5000)) = [(5000, Login ''user'' ''secret'')]"
    "OS_USERNAME demo_cfg = ''user''" "OS_PASSWORD demo_cfg = ''secret''"
    by (simp_all add: scenario_defs server_defs)
  have w: "truthy (cachedToken_w ?w) \<and> tokenExpMs ?w - 1000 > 60000"
    "\<not> (truthy (cachedToken_w ?w) \<and> tokenExpMs ?w - 43140000 > 60000)"
    "truthy (env_OS_USERNAME user_env) \<and> truthy (env_OS_PASSWORD user_env)"
    "text_of (env_OS_USERNAME user_env) = ''user''" "text_of (env_OS_PASSWORD user_env) = ''secret''"
    by (simp_all add: truthy_def user_env_def text_of_def)
  from token_reuse [OF f(1) refl, of "''tok''" 2 0 ?w 1000 user_env "\<lambda>k. NetworkError"]
    token_reuse [OF f(2) refl, of "''tok''" 2 0 ?w 43140000 user_env "\<lambda>k. NetworkError"]
    f c n w
  show ?thesis by (simp del: run.simps feasible.simps)
qed

text \<open>
  C6, as the code does it. A login of the server that waits for the answer of
  \<^verbatim>\<open>/login\<close>, in any state the server can reach. When the answer carries a token, the
  token is stored with the time of that moment, and the cache serves it. When the login
  fails (a refusal, an answer without token, a network failure), the cache is left as it
  was, and no token in it is valid. Either way everyone who awaits the promise receives
  that outcome: the token, or the error. The worker
  \<^verbatim>\<open>opensubtitles-proxy.worker.js\<close> has no waiters. An answer with an OK status is
  never a failure there: it stores the token of the answer, or null when the answer
  carries none, with an expiry twelve hours after the time read at the start of the
  call, and returns what it stored, without an error. A refused login and a network
  failure throw and leave the cache as it was.
\<close>

theorem login_outcome_stored:
  assumes "feasible cfg es (init t0)" and "s = run cfg es (init t0)"
    and "loginInFlight s = Some (Fetching, ws)"
    and "s' = run cfg [Reply a, Finally] s"
  shows "delivered s' = delivered s @ map (\<lambda>c. (c, login_outcome a)) ws \<and>
         (case login_outcome a of
            Inr tok \<Rightarrow> cachedToken s' = Some tok \<and> tokenSetAtMs s' = now s' \<and> cache_lookup s' = Some tok
          | Inl e \<Rightarrow> cachedToken s' = cachedToken s \<and> tokenSetAtMs s' = tokenSetAtMs s \<and>
              cache_lookup s' = None) \<and>
         (\<not> (truthy (cachedToken_w w) \<and> tokenExpMs w - t > 60000) \<and>
          truthy (env_OS_USERNAME env) \<and> truthy (env_OS_PASSWORD env) \<longrightarrow>
            (case net (length (sent_w w)) of
               Answer res \<Rightarrow>
                 if ok res
                 then fst (ensureToken env net t w)
                        = Inr (case json res of
                                 None \<Rightarrow> None
                               | Some d \<Rightarrow> if truthy (j_token d) then j_token d else None) \<and>
                      cachedToken_w (snd (ensureToken env net t w))
                        = (case json res of
                             None \<Rightarrow> None
                           | Some d \<Rightarrow> if truthy (j_token d) then j_token d else None) \<and>
                      tokenExpMs (snd (ensureToken env net t w)) = t + 12 * 60 * 60 * 1000
                 else (\<exists>m. fst (ensureToken env net t w) = Inl (LoginFailed (status res) m)) \<and>
                      cachedToken_w (snd (ensureToken env net t w)) = cachedToken_w w \<and>
                      tokenExpMs (snd (ensureToken env net t w)) = tokenExpMs w
             | NetworkError \<Rightarrow>
                 fst (ensureToken env net t w) = Inl FetchFailed \<and>
                 cachedToken_w (snd (ensureToken env net t w)) = cachedToken_w w \<and>
                 tokenExpMs (snd (ensureToken env net t w)) = tokenExpMs w))"
proof -
  have "stale_inv s"
    unfolding assms(2) using reachable_stale [OF assms(1)] .
  with assms(3) have stale: "cache_lookup s = None"
    by (simp add: stale_inv_def)
  have d: "delivered s' = delivered s @ map (\<lambda>c. (c, login_outcome a)) ws"
    using assms(3) by (simp add: assms(4) settle_def split: sum.splits)
  have o: "case login_outcome a of
            Inr tok \<Rightarrow> cachedToken s' = Some tok \<and> tokenSetAtMs s' = now s' \<and> cache_lookup s' = Some tok
          | Inl e \<Rightarrow> cachedToken s' = cachedToken s \<and> tokenSetAtMs s' = tokenSetAtMs s \<and>
              cache_lookup s' = None"
  proof (cases "login_outcome a")
    case (Inl e)
    have "cache_lookup s' = None"
      using assms(3) Inl by (intro cache_lookup_later [OF stale]) (simp_all add: assms(4) settle_def)
    with Inl assms(3) show ?thesis
      by (simp add: assms(4) settle_def)
  next
    case (Inr tok)
    with assms(3) login_outcome_token [OF Inr] show ?thesis
      by (simp add: assms(4) settle_def cache_lookup_def truthy_def)
  qed
  have w: "\<not> (truthy (cachedToken_w w) \<and> tokenExpMs w - t > 60000) \<and>
          truthy (env_OS_USERNAME env) \<and> truthy (env_OS_PASSWORD env) \<longrightarrow>
            (case net (length (sent_w w)) of
               Answer res \<Rightarrow>
                 if ok res
                 then fst (ensureToken env net t w)
                        = Inr (case json res of
                                 None \<Rightarrow> None
                               | Some d \<Rightarrow> if truthy (j_token d) then j_token d else None) \<and>
                      cachedToken_w (snd (ensureToken env net t w))
                        = (case json res of
                             None \<Rightarrow> None
                           | Some d \<Rightarrow> if truthy (j_token d) then j_token d else None) \<and>
                      tokenExpMs (snd (ensureToken env net t w)) = t + 12 * 60 * 60 * 1000
                 else (\<exists>m. fst (ensureToken env net t w) = Inl (LoginFailed (status res) m)) \<and>
                      cachedToken_w (snd (ensureToken env net t w)) = cachedToken_w w \<and>
                      tokenExpMs (snd (ensureToken env net t w)) = tokenExpMs w
             | NetworkError \<Rightarrow>
                 fst (ensureToken env net t w) = Inl FetchFailed \<and>
                 cachedToken_w (snd (ensureToken env net t w)) = cachedToken_w w \<and>
                 tokenExpMs (snd (ensureToken env net t w)) = tokenExpMs w)"
    by (auto simp: ensureToken_def fetch_w_def Let_def split: answer.splits)
  from d o w show ?thesis by blast
qed

text \<open>
  Two callers await a login sent at 5000. Answered with a token 40 ms later, both receive
  it and it is stored with the time 5040; refused, both receive the refusal and the
  cache stays empty. The worker stores a token with its expiry, and keeps its expired
  token when the login is refused.
\<close>

theorem login_outcome_stored_witness:
  "feasible demo_cfg [Call 1, Call 2, Advance 40] (init 5000) \<and>
   loginInFlight (run demo_cfg [Call 1, Call 2, Advance 40] (init 5000)) = Some (Fetching, [1, 2]) \<and>
   login_outcome (Answer (token_reply ''tok'')) = Inr ''tok'' \<and>
   delivered (run demo_cfg [Reply (Answer (token_reply ''tok'')), Finally]
       (run demo_cfg [Call 1, Call 2, Advance 40] (init 5000))) = [(1, Inr ''tok''), (2, Inr ''tok'')] \<and>
   cachedToken (run demo_cfg [Reply (Answer (token_reply ''tok'')), Finally]
       (run demo_cfg [Call 1, Call 2, Advance 40] (init 5000))) = Some ''tok'' \<and>
   tokenSetAtMs (run demo_cfg [Reply (Answer (token_reply ''tok'')), Finally]
       (run demo_cfg [Call 1, Call 2, Advance 40] (init 5000))) = 5040 \<and>
   login_outcome (Answer (refusal 403 ''no'')) = Inl (LoginRejected 403 ''no'') \<and>
   delivered (run demo_cfg [Reply (Answer (refusal 403 ''no'')), Finally]
       (run demo_cfg [Call 1, Call 2, Advance 40] (init 5000)))
     = [(1, Inl (LoginRejected 403 ''no'')), (2, Inl (LoginRejected 403 ''no''))] \<and>
   cachedToken (run demo_cfg [Reply (Answer (refusal 403 ''no'')), Finally]
       (run demo_cfg [Call 1, Call 2, Advance 40] (init 5000))) = None \<and>
   fst (ensureToken user_env (\<lambda>k. Answer (token_reply ''tok'')) 7000 stale_worker) = Inr (Some ''tok'') \<and>
   cachedToken_w (snd (ensureToken user_env (\<lambda>k. Answer (token_reply ''tok'')) 7000 stale_worker)) = Some ''tok'' \<and>
   tokenExpMs (snd (ensureToken user_env (\<lambda>k. Answer (token_reply ''tok'')) 7000 stale_worker)) = 43207000 \<and>
   cachedToken_w (snd (ensureToken user_env (\<lambda>k. Answer (refusal 403 ''no'')) 7000 stale_worker)) = Some ''old''"
proof -
  let ?es = "[Call 1, Call 2, Advance 40]"
  let ?s = "run demo_cfg ?es (init 5000)"
  have f: "feasible demo_cfg ?es (init 5000)"
    by (simp add: scenario_defs server_defs)
  have i: "loginInFlight ?s = Some (Fetching, [1, 2])"
    by (simp add: scenario_defs server_defs)
  have n: "now ?s = 5040" "delivered ?s = []" "cachedToken ?s = None"
    by (simp_all add: scenario_defs server_defs)
  have o: "login_outcome (Answer (token_reply ''tok'')) = Inr ''tok''"
    "login_outcome (Answer (refusal 403 ''no'')) = Inl (LoginRejected 403 ''no'')"
    by (simp_all add: scenario_defs server_defs)
  have w: "\<not> (truthy (cachedToken_w stale_worker) \<and> tokenExpMs stale_worker - 7000 > 60000) \<and>
      truthy (env_OS_USERNAME user_env) \<and> truthy (env_OS_PASSWORD user_env)"
    "cachedToken_w stale_worker = Some ''old''" "sent_w stale_worker = []"
    by (simp_all add: stale_worker_def user_env_def truthy_def)
  have r: "ok (token_reply ''tok'')" "json (token_reply ''tok'') = Some (blank_json\<lparr>j_token := Some ''tok''\<rparr>)"
    "truthy (j_token (blank_json\<lparr>j_token := Some ''tok''\<rparr>))"
    "j_token (blank_json\<lparr>j_token := Some ''tok''\<rparr>) = Some ''tok''"
    "\<not> ok (refusal 403 ''no'')"
    by (simp_all add: scenario_defs ok_def truthy_def)
  have t: "now (run demo_cfg [Reply (Answer (token_reply ''tok'')), Finally] ?s) = 5040"
    using i n by (simp add: settle_def split: sum.splits)
  from login_outcome_stored [OF f refl i refl, of "Answer (token_reply ''tok'')" stale_worker 7000 user_env
      "\<lambda>k. Answer (token_reply ''tok'')"]
    login_outcome_stored [OF f refl i refl, of "Answer (refusal 403 ''no'')" stale_worker 7000 user_env
      "\<lambda>k. Answer (refusal 403 ''no'')"]
    f i n o w r t
  show ?thesis by (simp del: run.simps feasible.simps)
qed

text \<open>
  The sentence of the specification does not hold in
  \<^verbatim>\<open>opensubtitles-proxy.worker.js\<close>: a login answered 200 without a token throws
  nothing; \<^verbatim>\<open>ensureToken\<close> returns null, and the cache is not left as it was: the
  expired token is replaced by null, with a new expiry.
\<close>

theorem worker_login_without_token_counterexample:
  "ok empty_reply \<and> json empty_reply = Some blank_json \<and> j_token blank_json = None \<and>
   fst (ensureToken user_env (\<lambda>k. Answer empty_reply) 7000 stale_worker) = Inr None \<and>
   sent_w (snd (ensureToken user_env (\<lambda>k. Answer empty_reply) 7000 stale_worker)) = [Login ''user'' ''secret''] \<and>
   cachedToken_w stale_worker = Some ''old'' \<and>
   cachedToken_w (snd (ensureToken user_env (\<lambda>k. Answer empty_reply) 7000 stale_worker)) = None \<and>
   tokenExpMs (snd (ensureToken user_env (\<lambda>k. Answer empty_reply) 7000 stale_worker)) = 43207000"
  by (simp add: ensureToken_def fetch_w_def text_of_def truthy_def ok_def Let_def stale_worker_def
      user_env_def scenario_defs)

text \<open>
  C10. In any state the server can reach, when the login that waits for its answer gets
  it, whatever it is, and its \<^verbatim>\<open>finally\<close> callback has run, \<^verbatim>\<open>loginInFlight\<close> is
  empty. After a login that failed, a call made at any later time is not answered from
  the failure: it starts a login of its own, sent at once when 1100 ms have passed since
  the failed attempt, and after a sleep until then otherwise.
\<close>

theorem in_flight_reset:
  assumes "feasible cfg es (init t0)" and "s = run cfg es (init t0)"
    and "loginInFlight s = Some (Fetching, ws)"
    and "s' = run cfg [Reply a, Finally, Advance d] s"
  shows "feasible cfg [Reply a, Finally, Advance d] s \<and> loginInFlight s' = None \<and>
         (case login_outcome a of
            Inr tok \<Rightarrow> cachedToken s' = Some tok
          | Inl e \<Rightarrow>
              (if now s' - lastLoginAtMs s' < 1100
               then osLogin cfg c s'
                 = (None, s'\<lparr>loginInFlight := Some (Sleeping (lastLoginAtMs s' + 1100), [c])\<rparr>)
               else osLogin cfg c s'
                 = (None, (issue_login cfg s')\<lparr>loginInFlight := Some (Fetching, [c])\<rparr>)))"
proof -
  have c: "creds_inv cfg s"
    unfolding assms(2) using reachable_creds [OF assms(1)] .
  have st: "stale_inv s"
    unfolding assms(2) using reachable_stale [OF assms(1)] .
  from c assms(3) have creds: "OS_USERNAME cfg \<noteq> []" "OS_PASSWORD cfg \<noteq> []"
    by (auto simp: creds_inv_def)
  from st assms(3) have stale: "cache_lookup s = None"
    by (simp add: stale_inv_def)
  show ?thesis
  proof (cases "login_outcome a")
    case (Inl e)
    have "cache_lookup s' = None"
      using assms(3) Inl by (intro cache_lookup_later [OF stale]) (simp_all add: assms(4) settle_def)
    moreover have "loginInFlight s' = None"
      using assms(3) by (simp add: assms(4))
    ultimately show ?thesis
      using creds Inl assms(3)
      by (simp add: osLogin_def start_login_def Let_def assms(4))
  next
    case (Inr tok)
    then show ?thesis
      using assms(3) by (simp add: assms(4) settle_def)
  qed
qed

text \<open>
  A login sent at 5000 fails on the network. Two seconds later the handle is empty, and
  the next call sends a new login at 7000.
\<close>

theorem in_flight_reset_witness:
  "feasible demo_cfg [Call 1] (init 5000) \<and>
   loginInFlight (run demo_cfg [Call 1] (init 5000)) = Some (Fetching, [1]) \<and>
   feasible demo_cfg [Reply NetworkError, Finally, Advance 2000] (run demo_cfg [Call 1] (init 5000)) \<and>
   loginInFlight (run demo_cfg [Reply NetworkError, Finally, Advance 2000] (run demo_cfg [Call 1] (init 5000)))
     = None \<and>
   login_outcome NetworkError = Inl FetchFailed \<and>
   loginInFlight (snd (osLogin demo_cfg 2
       (run demo_cfg [Reply NetworkError, Finally, Advance 2000] (run demo_cfg [Call 1] (init 5000)))))
     = Some (Fetching, [2]) \<and>
   login_times (snd (osLogin demo_cfg 2
       (run demo_cfg [Reply NetworkError, Finally, Advance 2000] (run demo_cfg [Call 1] (init 5000)))))
     = [5000, 7000]"
proof -
  let ?s = "run demo_cfg [Call 1] (init 5000)"
  let ?s' = "run demo_cfg [Reply NetworkError, Finally, Advance 2000] ?s"
  have f: "feasible demo_cfg [Call 1] (init 5000)"
    by (simp add: scenario_defs server_defs)
  have i: "loginInFlight ?s = Some (Fetching, [1])"
    by (simp add: scenario_defs server_defs)
  have n: "\<not> now ?s' - lastLoginAtMs ?s' < 1100" "login_outcome NetworkError = Inl FetchFailed"
    "login_times (issue_login demo_cfg ?s') = [5000, 7000]"
    by (simp_all add: scenario_defs server_defs)
  from in_flight_reset [OF f refl i refl, of NetworkError 2000 2] n f i
  show ?thesis by (simp add: login_times_def del: run.simps feasible.simps)
qed

subsection \<open>A download served alone\<close>

lemma osFetch_fields [simp]:
  "loginInFlight (snd (osFetch net rq s)) = loginInFlight s"
  "cachedToken (snd (osFetch net rq s)) = cachedToken s"
  "map snd (sent (snd (osFetch net rq s))) = map snd (sent s) @ [rq]"
  "length (sent (snd (osFetch net rq s))) = Suc (length (sent s))"
  "fst (osFetch net rq s) = fst (net (length (sent s)))"
  by (simp_all add: osFetch_def split: prod.splits)

text \<open>
  Awaiting \<^verbatim>\<open>osLogin\<close> alone is one of the executions of the server: the call, the
  sleep and the timer if the login has to wait, the answer and the \<^verbatim>\<open>finally\<close>
  callback.
\<close>

lemma await_osLogin_is_schedule:
  assumes "loginInFlight s = None"
  shows "\<exists>es. feasible cfg es s \<and> run cfg es s = snd (await_osLogin cfg net c s)"
proof (cases "fst (osLogin cfg c s)")
  case (Some res)
  then have "feasible cfg [Call c] s \<and> run cfg [Call c] s = snd (await_osLogin cfg net c s)"
    by (auto simp: await_osLogin_def split: prod.splits option.splits)
  then show ?thesis by blast
next
  case None
  then have o: "osLogin cfg c s = (None, start_login cfg c s)"
    using assms by (auto simp: osLogin_def split: option.splits if_splits)
  show ?thesis
  proof (cases "now s - lastLoginAtMs s < 1100")
    case True
    define d where "d = nat (1100 - (now s - lastLoginAtMs s))"
    define s2 where "s2 = step cfg TimerFire (step cfg (Advance d) (step cfg (Call c) s))"
    obtain a lat where n: "net (length (sent s2) - 1) = (a, lat)"
      by (cases "net (length (sent s2) - 1)")
    have "feasible cfg [Call c, Advance d, TimerFire, Advance lat, Reply a, Finally] s \<and>
        run cfg [Call c, Advance d, TimerFire, Advance lat, Reply a, Finally] s
          = snd (await_osLogin cfg net c s)"
      using True o n
      by (simp add: await_osLogin_def start_login_def issue_login_def Let_def d_def s2_def)
    then show ?thesis by blast
  next
    case False
    define s2 where "s2 = step cfg (Call c) s"
    obtain a lat where n: "net (length (sent s2) - 1) = (a, lat)"
      by (cases "net (length (sent s2) - 1)")
    have "feasible cfg [Call c, Advance lat, Reply a, Finally] s \<and>
        run cfg [Call c, Advance lat, Reply a, Finally] s = snd (await_osLogin cfg net c s)"
      using False o n
      by (simp add: await_osLogin_def start_login_def issue_login_def Let_def s2_def)
    then show ?thesis by blast
  qed
qed

lemma await_osLogin_idle:
  assumes "loginInFlight s = None"
  shows "loginInFlight (snd (await_osLogin cfg net c s)) = None"
  using assms
  by (auto simp: await_osLogin_def osLogin_def start_login_def issue_login_def deliver_def
      settle_def Let_def split: option.splits prod.splits phase.splits sum.splits)

lemma await_osLogin_fresh:
  assumes "OS_USERNAME cfg \<noteq> []" "OS_PASSWORD cfg \<noteq> []"
    and "loginInFlight s = None" "cache_lookup s = None"
    and "net (length (sent s)) = (a, lat)"
  shows "fst (await_osLogin cfg net c s) = login_outcome a \<and>
         loginInFlight (snd (await_osLogin cfg net c s)) = None \<and>
         map snd (sent (snd (await_osLogin cfg net c s)))
           = map snd (sent s) @ [Login (OS_USERNAME cfg) (OS_PASSWORD cfg)] \<and>
         cachedToken (snd (await_osLogin cfg net c s))
           = (case login_outcome a of Inr tok \<Rightarrow> Some tok | Inl e \<Rightarrow> cachedToken s)"
  using assms
  by (auto simp: await_osLogin_def osLogin_def start_login_def issue_login_def
      settle_def Let_def split: sum.splits)

lemma fetch_file_cache:
  "cachedToken (snd (fetch_file net out s)) = cachedToken s"
  by (auto simp: fetch_file_def osFetch_def split: option.splits answer.splits prod.splits)

lemma fetch_file_sent:
  "map snd (sent (snd (fetch_file net out s)))
     = map snd (sent s) @ (case download_link out of None \<Rightarrow> [] | Some link \<Rightarrow> [FileGet link])"
  by (auto simp: fetch_file_def osFetch_def split: option.splits answer.splits prod.splits)

lemma fetch_file_failed:
  "download_link out = None \<Longrightarrow>
     fst (fetch_file net out s)
       = Inr (sendJson (if status out \<noteq> 0 then status out else 500)
               (Message (or_default (os_msg out) ''OpenSubtitles download error'')))"
  by (simp add: fetch_file_def)

text \<open>
  C2, as the code does it. A download is served alone by the server, with its
  credentials; \<^verbatim>\<open>osLogin\<close> gives a token and the first \<^verbatim>\<open>/download\<close> is answered
  with status 401. Then the cache is cleared and exactly one login is sent, whatever the
  cache held. If that login fails, its error is thrown to the caller, nothing more is
  sent and the cache stays cleared. If it gives a token, that token is in the cache from
  then on, and exactly one more \<^verbatim>\<open>/download\<close> is sent, with the new token; when this
  one fails as well, the caller receives the status and the message of this second
  answer, nothing more is sent, and the cache keeps the new token. The worker
  \<^verbatim>\<open>tronapp-subproxy\<close> does not retry: a 401 from \<^verbatim>\<open>/download\<close> is passed to the
  client, with nothing more sent and the cached token kept.
\<close>

theorem retry_once_on_401:
  assumes creds: "OS_USERNAME cfg \<noteq> []" "OS_PASSWORD cfg \<noteq> []"
    and idle: "loginInFlight s = None"
    and fid: "file_id b = Some fileId" "0 < fileId"
    and fmt: "subFormat = (case sub_format b of None \<Rightarrow> ''srt'' | Some f \<Rightarrow> or_default f ''srt'')"
    and first_login: "await_osLogin cfg net c s = (Inr token, s1)"
    and first_try: "osFetch net (Download (bearer token) fileId subFormat) s1 = (Answer out, s2)"
    and unauth: "status out = 401"
    and relogin: "net (length (sent s2)) = (a, lat)"
    and retry: "net (Suc (length (sent s2))) = (a2, lat2)"
    and final: "handleDownload cfg net c b s = (res, s')"
  shows "(case login_outcome a of
           Inl e \<Rightarrow>
             res = Inl e \<and> cachedToken s' = None \<and>
             map snd (sent s') = map snd (sent s2) @ [Login (OS_USERNAME cfg) (OS_PASSWORD cfg)]
         | Inr token2 \<Rightarrow>
             cachedToken s' = Some token2 \<and>
             (case a2 of
                NetworkError \<Rightarrow>
                  res = Inl FetchFailed \<and>
                  map snd (sent s') = map snd (sent s2) @
                    [Login (OS_USERNAME cfg) (OS_PASSWORD cfg), Download (Some token2) fileId subFormat]
              | Answer out2 \<Rightarrow>
                  (case download_link out2 of
                     None \<Rightarrow>
                       res = Inr (sendJson (if status out2 \<noteq> 0 then status out2 else 500)
                               (Message (or_default (os_msg out2) ''OpenSubtitles download error''))) \<and>
                       map snd (sent s') = map snd (sent s2) @
                         [Login (OS_USERNAME cfg) (OS_PASSWORD cfg), Download (Some token2) fileId subFormat]
                   | Some link \<Rightarrow>
                       map snd (sent s') = map snd (sent s2) @
                         [Login (OS_USERNAME cfg) (OS_PASSWORD cfg), Download (Some token2) fileId subFormat,
                          FileGet link]))) \<and>
         (truthy (map_of (searchParams req) ''file_id'') \<and>
          login env wnet t st = (Inr tk, st1) \<and>
          osFetch_t env wnet
            (Download (Some tk) (text_of (map_of (searchParams req) ''file_id''))
               (or_default (get_or (searchParams req) ''sub_format'' [])
                  (get_or (searchParams req) ''format'' ''srt''))) st1 = (Inr dlResp, st2) \<and>
          status dlResp = 401 \<longrightarrow>
            handleDownloadFile dec env wnet t req st
              = (Inr (jsonResponse_t (Message ''OpenSubtitles download failed'') 401), st2) \<and>
            cachedToken_t st2 = cachedToken_t st1 \<and>
            sent_t st2 = sent_t st1 @
              [Download (Some tk) (text_of (map_of (searchParams req) ''file_id''))
                 (or_default (get_or (searchParams req) ''sub_format'' [])
                    (get_or (searchParams req) ''format'' ''srt''))])"
proof -
  let ?c = "s2\<lparr>cachedToken := None, tokenSetAtMs := 0\<rparr>"
  let ?l = "await_osLogin cfg net c ?c"
  have "loginInFlight s1 = None"
    using await_osLogin_idle [OF idle, of cfg net c] first_login by simp
  then have i2: "loginInFlight ?c = None"
    using osFetch_fields(1) [of net "Download (bearer token) fileId subFormat" s1] first_try by simp
  have stale: "cache_lookup ?c = None"
    by (rule cache_lookup_invalidate)
  have n: "net (length (sent ?c)) = (a, lat)"
    using relogin by simp
  note L = await_osLogin_fresh [where net = net and c = c, OF creds i2 stale n]
  have hd: "handleDownload cfg net c b s =
      (case ?l of
         (Inl e, s3) \<Rightarrow> (Inl e, s3)
       | (Inr token2, s3) \<Rightarrow>
           (case osFetch net (Download (bearer token2) fileId subFormat) s3 of
              (NetworkError, s4) \<Rightarrow> (Inl FetchFailed, s4)
            | (Answer out2, s4) \<Rightarrow> fetch_file net out2 s4))"
    using fid first_login first_try unauth
    by (simp add: handleDownload_def fmt [symmetric])
  have server: "case login_outcome a of
           Inl e \<Rightarrow>
             res = Inl e \<and> cachedToken s' = None \<and>
             map snd (sent s') = map snd (sent s2) @ [Login (OS_USERNAME cfg) (OS_PASSWORD cfg)]
         | Inr token2 \<Rightarrow>
             cachedToken s' = Some token2 \<and>
             (case a2 of
                NetworkError \<Rightarrow>
                  res = Inl FetchFailed \<and>
                  map snd (sent s') = map snd (sent s2) @
                    [Login (OS_USERNAME cfg) (OS_PASSWORD cfg), Download (Some token2) fileId subFormat]
              | Answer out2 \<Rightarrow>
                  (case download_link out2 of
                     None \<Rightarrow>
                       res = Inr (sendJson (if status out2 \<noteq> 0 then status out2 else 500)
                               (Message (or_default (os_msg out2) ''OpenSubtitles download error''))) \<and>
                       map snd (sent s') = map snd (sent s2) @
                         [Login (OS_USERNAME cfg) (OS_PASSWORD cfg), Download (Some token2) fileId subFormat]
                   | Some link \<Rightarrow>
                       map snd (sent s') = map snd (sent s2) @
                         [Login (OS_USERNAME cfg) (OS_PASSWORD cfg), Download (Some token2) fileId subFormat,
                          FileGet link]))"
  proof (cases "login_outcome a")
    case (Inl e)
    obtain s3 where l: "?l = (Inl e, s3)"
      using L Inl by (cases ?l) simp
    with hd final have "res = Inl e" "s' = s3" by simp_all
    with L l Inl show ?thesis by simp
  next
    case (Inr token2)
    obtain s3 where l: "?l = (Inr token2, s3)"
      using L Inr by (cases ?l) simp
    have tok: "bearer token2 = Some token2"
      using login_outcome_token [OF Inr] by (simp add: bearer_def)
    from L l Inr have s3: "cachedToken s3 = Some token2"
      "map snd (sent s3) = map snd (sent s2) @ [Login (OS_USERNAME cfg) (OS_PASSWORD cfg)]"
      by simp_all
    then have len: "length (sent s3) = Suc (length (sent s2))"
      using length_map [of snd "sent s3"] by simp
    let ?f = "osFetch net (Download (Some token2) fileId subFormat) s3"
    have f1: "fst ?f = a2" using retry len by simp
    obtain s4 where f: "?f = (a2, s4)"
      using f1 by (cases ?f) simp
    have s4: "cachedToken s4 = Some token2"
      "map snd (sent s4) = map snd (sent s2) @
         [Login (OS_USERNAME cfg) (OS_PASSWORD cfg), Download (Some token2) fileId subFormat]"
      using osFetch_fields(2,3) [of net "Download (Some token2) fileId subFormat" s3] f s3
      by simp_all
    show ?thesis
    proof (cases a2)
      case NetworkError
      with hd final l tok f have "res = Inl FetchFailed" "s' = s4" by simp_all
      with s4 Inr NetworkError show ?thesis by simp
    next
      case (Answer out2)
      with hd final l tok f have r: "fetch_file net out2 s4 = (res, s')" by simp
      have "cachedToken s' = Some token2"
        using fetch_file_cache [of net out2 s4] r s4 by simp
      moreover have "map snd (sent s') = map snd (sent s4)
          @ (case download_link out2 of None \<Rightarrow> [] | Some link \<Rightarrow> [FileGet link])"
        using fetch_file_sent [of net out2 s4] r by simp
      moreover have "download_link out2 = None \<Longrightarrow>
          res = Inr (sendJson (if status out2 \<noteq> 0 then status out2 else 500)
               (Message (or_default (os_msg out2) ''OpenSubtitles download error'')))"
        using fetch_file_failed [of out2 net s4] r by simp
      ultimately show ?thesis
        using Inr Answer s4 by (simp split: option.splits)
    qed
  qed
  have worker: "truthy (map_of (searchParams req) ''file_id'') \<and>
          login env wnet t st = (Inr tk, st1) \<and>
          osFetch_t env wnet
            (Download (Some tk) (text_of (map_of (searchParams req) ''file_id''))
               (or_default (get_or (searchParams req) ''sub_format'' [])
                  (get_or (searchParams req) ''format'' ''srt''))) st1 = (Inr dlResp, st2) \<and>
          status dlResp = 401 \<longrightarrow>
            handleDownloadFile dec env wnet t req st
              = (Inr (jsonResponse_t (Message ''OpenSubtitles download failed'') 401), st2) \<and>
            cachedToken_t st2 = cachedToken_t st1 \<and>
            sent_t st2 = sent_t st1 @
              [Download (Some tk) (text_of (map_of (searchParams req) ''file_id''))
                 (or_default (get_or (searchParams req) ''sub_format'' [])
                    (get_or (searchParams req) ''format'' ''srt''))]"
    by (auto simp: handleDownloadFile_def Let_def ok_def osFetch_t_def
        split: sum.splits answer.splits)
  from server worker show ?thesis by blast
qed

text \<open>
  The first download is refused with 401; the server logs in again (after its sleep),
  retries once with the new token, gets the link and fetches the file.
\<close>

theorem retry_once_on_401_witness:
  "OS_USERNAME demo_cfg \<noteq> [] \<and> OS_PASSWORD demo_cfg \<noteq> [] \<and> loginInFlight (init 5000) = None \<and>
   file_id demo_body = Some 12345 \<and>
   fst (await_osLogin demo_cfg retry_ok_net 0 (init 5000)) = Inr ''t1'' \<and>
   fst (osFetch retry_ok_net (Download (bearer ''t1'') 12345 ''srt'')
          (snd (await_osLogin demo_cfg retry_ok_net 0 (init 5000)))) = Answer (refusal 401 ''expired'') \<and>
   status (refusal 401 ''expired'') = 401 \<and>
   login_outcome (Answer (token_reply ''t2'')) = Inr ''t2'' \<and>
   download_link (link_reply ''https://files.example/1'' None) = Some ''https://files.example/1'' \<and>
   cachedToken (snd (handleDownload demo_cfg retry_ok_net 0 demo_body (init 5000))) = Some ''t2'' \<and>
   map snd (sent (snd (handleDownload demo_cfg retry_ok_net 0 demo_body (init 5000))))
     = [Login ''user'' ''secret'', Download (Some ''t1'') 12345 ''srt'',
        Login ''user'' ''secret'', Download (Some ''t2'') 12345 ''srt'',
        FileGet ''https://files.example/1'']"
proof -
  let ?l = "await_osLogin demo_cfg retry_ok_net 0 (init 5000)"
  let ?f = "osFetch retry_ok_net (Download (bearer ''t1'') 12345 ''srt'') (snd ?l)"
  let ?h = "handleDownload demo_cfg retry_ok_net 0 demo_body (init 5000)"
  have h: "OS_USERNAME demo_cfg \<noteq> []" "OS_PASSWORD demo_cfg \<noteq> []" "loginInFlight (init 5000) = None"
    "file_id demo_body = Some 12345" "(0::int) < 12345"
    "''srt'' = (case sub_format demo_body of None \<Rightarrow> ''srt'' | Some f \<Rightarrow> or_default f ''srt'')"
    by (simp_all add: scenario_defs init_def or_default_def)
  have l1: "fst ?l = Inr ''t1''"
    by (simp add: await_osLogin_def retry_ok_net_def scenario_defs server_defs)
  then have l: "?l = (Inr ''t1'', snd ?l)"
    by (cases ?l) simp
  have s1: "map snd (sent (snd ?l)) = [Login ''user'' ''secret'']"
    by (simp add: await_osLogin_def retry_ok_net_def scenario_defs server_defs)
  then have n1: "length (sent (snd ?l)) = 1"
    using length_map [of snd "sent (snd ?l)"] by simp
  have f1: "fst ?f = Answer (refusal 401 ''expired'')"
    using n1 by (simp add: retry_ok_net_def)
  then have f: "?f = (Answer (refusal 401 ''expired''), snd ?f)"
    by (cases ?f) simp
  have s2: "map snd (sent (snd ?f)) = [Login ''user'' ''secret'', Download (Some ''t1'') 12345 ''srt'']"
    using s1 by (simp add: bearer_def)
  have n2: "length (sent (snd ?f)) = 2"
    using n1 by simp
  have u: "status (refusal 401 ''expired'') = 401"
    by (simp add: refusal_def)
  have r: "retry_ok_net (length (sent (snd ?f))) = (Answer (token_reply ''t2''), 10)"
    "retry_ok_net (Suc (length (sent (snd ?f))))
       = (Answer (link_reply ''https://files.example/1'' None), 10)"
    by (simp_all add: n1 retry_ok_net_def)
  have o: "login_outcome (Answer (token_reply ''t2'')) = Inr ''t2''"
    "download_link (link_reply ''https://files.example/1'' None) = Some ''https://files.example/1''"
    by (simp_all add: scenario_defs server_defs download_link_def)
  have e: "?h = (fst ?h, snd ?h)" by simp
  from retry_once_on_401 [OF h l f u r e] h l1 f1 u o s2
  show ?thesis by (simp add: demo_cfg_def)
qed

text \<open>
  The sentence of the specification does not hold here: both downloads are refused (401, then 403 after the
  new login). The caller receives the second refusal, not the first, and the cache
  ends with the token of the second login in it, not cleared.
\<close>

theorem retry_keeps_fresh_token_counterexample:
  "fst (retry_net 1) = Answer (refusal 401 ''expired'') \<and>
   fst (handleDownload demo_cfg retry_net 0 demo_body (init 5000))
     = Inr (sendJson 403 (Message ''forbidden'')) \<and>
   cachedToken (snd (handleDownload demo_cfg retry_net 0 demo_body (init 5000))) = Some ''t2'' \<and>
   map snd (sent (snd (handleDownload demo_cfg retry_net 0 demo_body (init 5000))))
     = [Login ''user'' ''secret'', Download (Some ''t1'') 12345 ''srt'',
        Login ''user'' ''secret'', Download (Some ''t2'') 12345 ''srt'']"
  by (simp add: handleDownload_def await_osLogin_def osFetch_def fetch_file_def download_link_def
      bearer_def or_default_def retry_net_def scenario_defs server_defs)

section \<open>Lemmas about the two workers\<close>

lemmas worker_defs = anonymous_env_def user_env_def fresh_worker_def fresh_tronapp_def get_request_def
  file_net_def login_file_net_def nameless_net_def

lemma strip_quotes_clean: "CHR 0x22 \<notin> set (strip_quotes s)"
  by (simp add: strip_quotes_def)

lemma map_of_replace:
  "map_of (map (\<lambda>(a, b). if a = k then (a, v) else (a, b)) xs) q
     = (if q = k \<and> k \<in> fst ` set xs then Some v else map_of xs q)"
proof (induction xs)
  case Nil
  show ?case by simp
next
  case (Cons x xs)
  obtain a b where x: "x = (a, b)" by (cases x)
  show ?case
    unfolding x using Cons.IH by (cases "a = k"; cases "q = k"; simp)
qed

lemma map_of_set_header:
  "map_of (set_header k v hs) k' = (if k' = k then Some v else map_of hs k')"
proof (cases "k \<in> fst ` set hs")
  case True
  then show ?thesis by (simp add: set_header_def map_of_replace)
next
  case False
  then have "map_of hs k = None"
    by (simp add: map_of_eq_None_iff)
  with False show ?thesis
    by (auto simp: set_header_def map_add_def split: option.splits)
qed

lemma map_of_set_cors:
  "map_of (set_cors hs) k = (case map_of CORS_HEADERS k of Some v \<Rightarrow> Some v | None \<Rightarrow> map_of hs k)"
  by (simp add: set_cors_def CORS_HEADERS_def map_of_set_header)

lemma cors_present:
  "(k, v) \<in> set CORS_HEADERS \<Longrightarrow> map_of (set_cors hs) k = Some v"
  by (auto simp: map_of_set_cors CORS_HEADERS_def)

lemma file_headers_disposition:
  "map_of (file_headers d fileResp) ''content-disposition'' = Some d"
  by (simp add: file_headers_def Let_def map_of_set_cors map_of_set_header CORS_HEADERS_def)

lemma file_headers_cors:
  "(k, v) \<in> set CORS_HEADERS \<Longrightarrow> map_of (file_headers d fileResp) k = Some v"
  by (simp add: file_headers_def Let_def cors_present)

text \<open>
  Where the file name passes through the \<^verbatim>\<open>replace\<close> (lines 178 and 179 of
  \<^verbatim>\<open>tronapp-subproxy\<close>, line 166 of the worker), the name between the quotes of the
  header has no double quote.
\<close>

lemma handleDownloadFile_disposition:
  assumes "truthy (map_of (searchParams req) ''file_id'')"
    and "handleDownloadFile dec env net t req st = (Inr resp, st')" and "body resp = Stream b"
  shows "\<exists>fn. map_of (headers resp) ''content-disposition'' = Some (''attachment; filename='' @ quoted fn)
         \<and> CHR 0x22 \<notin> set fn"
proof -
  let ?fmt = "or_default (get_or (searchParams req) ''sub_format'' [])
                (get_or (searchParams req) ''format'' ''srt'')"
  let ?dl = "osFetch_t env net (Download (Some token) (text_of (map_of (searchParams req) ''file_id'')) ?fmt)"
  obtain r1 st1 where l: "login env net t st = (r1, st1)"
    by (cases "login env net t st")
  show ?thesis
  proof (cases r1)
    case (Inl e)
    with assms l show ?thesis by (simp add: handleDownloadFile_def Let_def)
  next
    case (Inr token)
    obtain r2 st2 where d: "osFetch_t env net
        (Download (Some token) (text_of (map_of (searchParams req) ''file_id'')) ?fmt) st1 = (r2, st2)"
      by (cases "osFetch_t env net
        (Download (Some token) (text_of (map_of (searchParams req) ''file_id'')) ?fmt) st1")
    show ?thesis
    proof (cases r2)
      case (Inl e)
      with assms l Inr d show ?thesis by (simp add: handleDownloadFile_def Let_def)
    next
      case r: (Inr dlResp)
      show ?thesis
      proof (cases "\<not> ok dlResp \<or> \<not> truthy (case json dlResp of None \<Rightarrow> None | Some j \<Rightarrow> j_link j)")
        case True
        with assms l Inr d r show ?thesis
          by (auto simp: handleDownloadFile_def Let_def jsonResponse_t_def)
      next
        case False
        show ?thesis
        proof (cases "net (length (sent_t st2))")
          case NetworkError
          with assms l Inr d r False show ?thesis
            by (simp add: handleDownloadFile_def Let_def)
        next
          case (Answer fileResp)
          with assms l Inr d r False show ?thesis
            by (auto simp: handleDownloadFile_def Let_def file_headers_disposition strip_quotes_clean)
        qed
      qed
    qed
  qed
qed

lemma worker_download_file_disposition:
  assumes "worker_download_file env net t req w = (Inr resp, w')" and "body resp = Stream b"
  shows "\<exists>fn. map_of (headers resp) ''content-disposition'' = Some (''inline; filename='' @ quoted fn)
         \<and> CHR 0x22 \<notin> set fn"
proof -
  let ?id = "pick (searchParams req) [''file_id'']"
  let ?fmt = "or_default (pick (searchParams req) [''format'']) ''srt''"
  note defs = worker_download_file_def Let_def jsonResponse_def
  from assms have id: "?id \<noteq> []"
    by (auto simp: defs simp del: pick.simps)
  obtain r1 w1 where e: "ensureToken env net t w = (r1, w1)"
    by (cases "ensureToken env net t w")
  show ?thesis
  proof (cases r1)
    case (Inl err)
    with assms id e show ?thesis by (auto simp: defs simp del: pick.simps)
  next
    case (Inr token)
    obtain a2 w2 where d: "fetch_w net (Download (if truthy token then token else None) ?id ?fmt) w1 = (a2, w2)"
      by (cases "fetch_w net (Download (if truthy token then token else None) ?id ?fmt) w1")
    show ?thesis
    proof (cases a2)
      case NetworkError
      with assms id e Inr d show ?thesis by (auto simp: defs simp del: pick.simps)
    next
      case (Answer dlRes)
      show ?thesis
      proof (cases "ok dlRes")
        case False
        with assms id e Inr d Answer show ?thesis by (auto simp: defs simp del: pick.simps)
      next
        case True
        let ?link = "case json dlRes of None \<Rightarrow> None | Some x \<Rightarrow> if truthy (j_link x) then j_link x else None"
        show ?thesis
        proof (cases ?link)
          case None
          with assms id e Inr d Answer True show ?thesis by (auto simp: defs simp del: pick.simps)
        next
          case (Some l)
          obtain a3 w3 where f: "fetch_w net (FileGet l) w2 = (a3, w3)"
            by (cases "fetch_w net (FileGet l) w2")
          show ?thesis
          proof (cases a3)
            case NetworkError
            with assms id e Inr d Answer True Some f show ?thesis by (auto simp: defs simp del: pick.simps)
          next
            case fr: (Answer fileRes)
            show ?thesis
            proof (cases "ok fileRes")
              case False
              with assms id e Inr d Answer True Some f fr show ?thesis
                by (auto simp: defs simp del: pick.simps)
            next
              case okf: True
              with assms id e Inr d Answer True Some f fr show ?thesis
                by (auto simp: defs worker_file_response_def corsHeaders_def strip_quotes_clean
                    simp del: pick.simps)
            qed
          qed
        qed
      qed
    qed
  qed
qed

text \<open>
  C5, as the code does it. With the user name or the password missing: the server's
  \<^verbatim>\<open>osLogin\<close> throws at once, whatever the cache holds; \<^verbatim>\<open>login\<close> of
  \<^verbatim>\<open>tronapp-subproxy\<close> throws for the missing variable, unless it still holds a valid
  token; \<^verbatim>\<open>ensureToken\<close> of \<^verbatim>\<open>opensubtitles-proxy.worker.js\<close> does not throw: it
  returns null, unless it still holds a valid token. None of them sends a request.
\<close>

theorem missing_credentials:
  "(OS_USERNAME cfg = [] \<or> OS_PASSWORD cfg = [] \<longrightarrow>
      osLogin cfg c s = (Some (Inl MissingCredentials), s)) \<and>
   (cached_t t st = None \<and> (\<not> truthy (env_OS_USERNAME env) \<or> \<not> truthy (env_OS_PASSWORD env)) \<longrightarrow>
      login env net t st = (Inl (MissingEnv ''OS_USERNAME''), st) \<or>
      login env net t st = (Inl (MissingEnv ''OS_PASSWORD''), st)) \<and>
   (\<not> (truthy (cachedToken_w w) \<and> tokenExpMs w - t > 60000) \<and>
    (\<not> truthy (env_OS_USERNAME env) \<or> \<not> truthy (env_OS_PASSWORD env)) \<longrightarrow>
      ensureToken env net t w = (Inr None, w))"
  by (auto simp: osLogin_def login_def getEnvOrThrow_def truthy_def ensureToken_def
      split: option.splits sum.splits)

theorem missing_credentials_witness:
  "OS_PASSWORD \<lparr>OS_USERNAME = ''user'', OS_PASSWORD = []\<rparr> = [] \<and>
   osLogin \<lparr>OS_USERNAME = ''user'', OS_PASSWORD = []\<rparr> 1 (init 5000)
     = (Some (Inl MissingCredentials), init 5000) \<and>
   cached_t 0 fresh_tronapp = None \<and> \<not> truthy (env_OS_USERNAME anonymous_env) \<and>
   login anonymous_env (\<lambda>k. NetworkError) 0 fresh_tronapp = (Inl (MissingEnv ''OS_USERNAME''), fresh_tronapp) \<and>
   \<not> truthy (cachedToken_w fresh_worker) \<and>
   ensureToken anonymous_env (\<lambda>k. NetworkError) 0 fresh_worker = (Inr None, fresh_worker)"
proof -
  have h: "OS_PASSWORD \<lparr>OS_USERNAME = ''user'', OS_PASSWORD = []\<rparr> = []"
    "cached_t 0 fresh_tronapp = None" "\<not> truthy (env_OS_USERNAME anonymous_env)"
    "\<not> truthy (cachedToken_w fresh_worker)"
    by (simp_all add: cached_t_def truthy_def worker_defs)
  have l: "login anonymous_env (\<lambda>k. NetworkError) 0 fresh_tronapp \<noteq> (Inl (MissingEnv ''OS_PASSWORD''), fresh_tronapp)"
    by (simp add: login_def cached_t_def getEnvOrThrow_def truthy_def worker_defs)
  from missing_credentials [of "\<lparr>OS_USERNAME = ''user'', OS_PASSWORD = []\<rparr>" 1 "init 5000"
      0 fresh_tronapp anonymous_env "\<lambda>k. NetworkError" fresh_worker] h l
  show ?thesis by simp
qed

text \<open>
  The sentence of the specification does not hold in \<^verbatim>\<open>opensubtitles-proxy.worker.js\<close>: without
  credentials \<^verbatim>\<open>ensureToken\<close> returns null and does not throw, and the download goes
  to the upstream without a bearer token.
\<close>

theorem missing_credentials_null_counterexample:
  "env_OS_USERNAME anonymous_env = None \<and> env_OS_PASSWORD anonymous_env = None \<and>
   fst (ensureToken anonymous_env file_net 0 fresh_worker) = Inr None \<and>
   sent_w (snd (worker_fetch anonymous_env file_net 0
       (get_request ''/download-file'' [(''file_id'', ''12345'')]) fresh_worker))
     = [Download None ''12345'' ''srt'', FileGet ''https://files.example/1'']"
  by (simp add: worker_fetch_def worker_download_file_def ensureToken_def fetch_w_def
      or_default_def trim_def is_space_def truthy_def ok_def Let_def scenario_defs worker_defs)

text \<open>
  C7, as the code does it. In \<^verbatim>\<open>tronapp-subproxy\<close> a search whose \<^verbatim>\<open>query\<close> is
  absent, empty or blank is answered 400 and nothing is sent to the upstream. The search
  of \<^verbatim>\<open>opensubtitles-proxy.worker.js\<close> and \<^verbatim>\<open>handleSubtitles\<close> of the server do not
  look at the query: each sends its request to \<^verbatim>\<open>/subtitles\<close> whatever it is.
\<close>

theorem empty_query:
  "(trim (get_or (searchParams req) ''query'' []) = [] \<longrightarrow>
      handleSearch env net req st = (Inr (jsonResponse_t (Message ''Missing query'') 400), st)) \<and>
   sent_w (snd (worker_search net req w)) = sent_w w @ [Subtitles (search_params (searchParams req))] \<and>
   map snd (sent (snd (handleSubtitles net' qs s))) = map snd (sent s) @ [Subtitles qs]"
  by (auto simp: handleSearch_def worker_search_def fetch_w_def handleSubtitles_def osFetch_def Let_def
      split: answer.splits prod.splits option.splits)

theorem empty_query_witness:
  "trim (get_or (searchParams (get_request ''/search'' [(''query'', [])])) ''query'' []) = [] \<and>
   handleSearch user_env (\<lambda>k. Answer empty_reply) (get_request ''/search'' [(''query'', [])]) fresh_tronapp
     = (Inr (jsonResponse_t (Message ''Missing query'') 400), fresh_tronapp) \<and>
   code (jsonResponse_t (Message ''Missing query'') 400) = 400 \<and> sent_t fresh_tronapp = []"
proof -
  have h: "trim (get_or (searchParams (get_request ''/search'' [(''query'', [])])) ''query'' []) = []"
    by (simp add: get_request_def get_or_def or_default_def trim_def)
  from empty_query [of "get_request ''/search'' [(''query'', [])]" user_env "\<lambda>k. Answer empty_reply"
      fresh_tronapp] h
  show ?thesis by (simp add: jsonResponse_t_def fresh_tronapp_def)
qed

text \<open>
  The sentence of the specification does not hold in the other two files: \<^verbatim>\<open>/search?query=\<close> on
  \<^verbatim>\<open>opensubtitles-proxy.worker.js\<close> and \<^verbatim>\<open>/os/subtitles?query=\<close> on the server are
  sent to the upstream, and its answer (here 200) is returned.
\<close>

theorem empty_query_forwarded_counterexample:
  "code (fst (worker_fetch user_env (\<lambda>k. Answer empty_reply) 0
       (get_request ''/search'' [(''query'', [])]) fresh_worker)) = 200 \<and>
   sent_w (snd (worker_fetch user_env (\<lambda>k. Answer empty_reply) 0
       (get_request ''/search'' [(''query'', [])]) fresh_worker)) = [Subtitles []] \<and>
   code (fst (server demo_cfg (\<lambda>k. (Answer empty_reply, 10)) 0
       (get_request ''/os/subtitles'' [(''query'', [])]) (init 5000))) = 200 \<and>
   map snd (sent (snd (server demo_cfg (\<lambda>k. (Answer empty_reply, 10)) 0
       (get_request ''/os/subtitles'' [(''query'', [])]) (init 5000)))) = [Subtitles [(''query'', [])]]"
  by (simp add: worker_fetch_def worker_search_def search_params_def fetch_w_def jsonResponse_def
      server_def handleSubtitles_def osFetch_def sendJson_def trim_def ok_def init_def
      scenario_defs worker_defs)

text \<open>
  C9. The file name of the \<^verbatim>\<open>Content-Disposition\<close> header is to have no double
  quote in it, and on the \<^verbatim>\<open>file_id\<close> path of \<^verbatim>\<open>handleDownloadFile\<close> it has
  none: with the format \<^verbatim>\<open>a"b\<close> and no file name from the upstream, the default name
  reaches the header as \<^verbatim>\<open>subtitle.ab\<close> (lines 178 and 179). The \<^verbatim>\<open>url=\<close> branch
  of the same function (line 144) writes the same default name without the
  \<^verbatim>\<open>replace\<close>: with the format \<^verbatim>\<open>a"b\<close> the header is
  \<^verbatim>\<open>attachment; filename="subtitle.a"b"\<close>, a file name with a double quote in it.
\<close>

theorem legacy_disposition_unstripped:
  "fst (handleDownloadFile Some user_env (\<lambda>k. Answer (file_reply ''subtitle text'')) 0
          (get_request ''/download-file''
             [(''url'', ''https://files.example/1''), (''sub_format'', ''a'' @ [CHR 0x22] @ ''b'')])
          fresh_tronapp)
     = Inr \<lparr>code = 200,
            headers = file_headers (''attachment; filename='' @ quoted (''subtitle.a'' @ [CHR 0x22] @ ''b''))
                        (file_reply ''subtitle text''),
            body = Stream ''subtitle text''\<rparr> \<and>
   map_of (file_headers (''attachment; filename='' @ quoted (''subtitle.a'' @ [CHR 0x22] @ ''b''))
             (file_reply ''subtitle text'')) ''content-disposition''
     = Some (''attachment; filename='' @ quoted (''subtitle.a'' @ [CHR 0x22] @ ''b'')) \<and>
   CHR 0x22 \<in> set (''subtitle.a'' @ [CHR 0x22] @ ''b'') \<and>
   fst (handleDownloadFile Some user_env nameless_net 0
          (get_request ''/download-file''
             [(''file_id'', ''12345''), (''sub_format'', ''a'' @ [CHR 0x22] @ ''b'')])
          fresh_tronapp)
     = Inr \<lparr>code = 200,
            headers = file_headers (''attachment; filename='' @ quoted ''subtitle.ab'') (file_reply ''subtitle text''),
            body = Stream ''subtitle text''\<rparr> \<and>
   CHR 0x22 \<notin> set ''subtitle.ab''"
  by (simp add: handleDownloadFile_def login_def cached_t_def osFetch_t_def getEnvOrThrow_def
      get_or_def or_default_def text_of_def strip_quotes_def trim_def is_space_def truthy_def
      ok_def Let_def file_headers_disposition scenario_defs worker_defs)

text \<open>
  Read off the response of the \<^verbatim>\<open>url=\<close> branch: the header the client receives.
\<close>

theorem legacy_disposition_unstripped_witness:
  "(case fst (handleDownloadFile Some user_env (\<lambda>k. Answer (file_reply ''subtitle text'')) 0
            (get_request ''/download-file''
               [(''url'', ''https://files.example/1''), (''sub_format'', ''a'' @ [CHR 0x22] @ ''b'')])
            fresh_tronapp) of
      Inl e \<Rightarrow> None
    | Inr resp \<Rightarrow> map_of (headers resp) ''content-disposition'')
     = Some (''attachment; filename='' @ quoted (''subtitle.a'' @ [CHR 0x22] @ ''b''))"
  using legacy_disposition_unstripped by simp

text \<open>
  C8, as the code does it. \<^verbatim>\<open>handleDownloadFile\<close> of \<^verbatim>\<open>tronapp-subproxy\<close>, asked
  for a \<^verbatim>\<open>file_id\<close>: when the login gives a token, \<^verbatim>\<open>/download\<close> answers with a
  link and the file behind the link is fetched, the response passes the body and the
  status of the file on, its \<^verbatim>\<open>Content-Disposition\<close> is \<^verbatim>\<open>attachment\<close> with the
  file name of the upstream, or \<^verbatim>\<open>subtitle.\<close> and the format when there is none
  (double quotes removed), and every CORS header is set. The route \<^verbatim>\<open>/download-file\<close>
  of \<^verbatim>\<open>opensubtitles-proxy.worker.js\<close>, when the file is fetched with success,
  answers 200 with the body of the file and the CORS headers, but its
  \<^verbatim>\<open>Content-Disposition\<close> is \<^verbatim>\<open>inline\<close>, with the file name of the upstream or
  \<^verbatim>\<open>subtitle-\<close>, the file id, a dot and the format.
\<close>

theorem download_file_response:
  "(truthy (map_of (searchParams req) ''file_id'') \<and>
    fid = text_of (map_of (searchParams req) ''file_id'') \<and>
    subFormat = or_default (get_or (searchParams req) ''sub_format'' [])
                  (get_or (searchParams req) ''format'' ''srt'') \<and>
    login env net t st = (Inr token, st1) \<and>
    osFetch_t env net (Download (Some token) fid subFormat) st1 = (Inr dlResp, st2) \<and>
    ok dlResp \<and> json dlResp = Some j \<and> truthy (j_link j) \<and>
    net (length (sent_t st2)) = Answer fileResp \<longrightarrow>
      (\<exists>resp st'. handleDownloadFile dec env net t req st = (Inr resp, st') \<and>
         code resp = status fileResp \<and> body resp = Stream (rtxt fileResp) \<and>
         map_of (headers resp) ''content-disposition''
           = Some (''attachment; filename='' @
               quoted (strip_quotes (if truthy (j_file_name j) then text_of (j_file_name j)
                                     else ''subtitle.'' @ subFormat))) \<and>
         list_all (\<lambda>(k, v). map_of (headers resp) k = Some v) CORS_HEADERS \<and>
         sent_t st' = sent_t st2 @ [FileGet (text_of (j_link j))])) \<and>
   (wid = pick (searchParams req') [''file_id''] \<and> wid \<noteq> [] \<and>
    wfmt = or_default (pick (searchParams req') [''format'']) ''srt'' \<and>
    ensureToken env' net' t' w = (Inr token', w1) \<and>
    fetch_w net' (Download (if truthy token' then token' else None) wid wfmt) w1 = (Answer dlRes, w2) \<and>
    ok dlRes \<and> json dlRes = Some d \<and> truthy (j_link d) \<and>
    fetch_w net' (FileGet (text_of (j_link d))) w2 = (Answer fileRes, w3) \<and> ok fileRes \<longrightarrow>
      (\<exists>resp'. worker_download_file env' net' t' req' w = (Inr resp', w3) \<and>
         code resp' = 200 \<and> body resp' = Stream (rtxt fileRes) \<and>
         map_of (headers resp') ''content-disposition''
           = Some (''inline; filename='' @
               quoted (strip_quotes (if truthy (j_file_name d) then text_of (j_file_name d)
                                     else ''subtitle-'' @ wid @ ''.'' @ wfmt))) \<and>
         list_all (\<lambda>(k, v). map_of (headers resp') k = Some v) corsHeaders))"
proof (intro conjI impI)
  assume a: "truthy (map_of (searchParams req) ''file_id'') \<and>
    fid = text_of (map_of (searchParams req) ''file_id'') \<and>
    subFormat = or_default (get_or (searchParams req) ''sub_format'' [])
                  (get_or (searchParams req) ''format'' ''srt'') \<and>
    login env net t st = (Inr token, st1) \<and>
    osFetch_t env net (Download (Some token) fid subFormat) st1 = (Inr dlResp, st2) \<and>
    ok dlResp \<and> json dlResp = Some j \<and> truthy (j_link j) \<and>
    net (length (sent_t st2)) = Answer fileResp"
  let ?name = "strip_quotes (if truthy (j_file_name j) then text_of (j_file_name j)
                                     else ''subtitle.'' @ subFormat)"
  let ?resp = "\<lparr>code = status fileResp,
      headers = file_headers (''attachment; filename='' @ quoted ?name) fileResp,
      body = Stream (rtxt fileResp)\<rparr>"
  from a have f: "truthy (map_of (searchParams req) ''file_id'')"
    and l: "login env net t st = (Inr token, st1)"
    and d: "osFetch_t env net
        (Download (Some token) (text_of (map_of (searchParams req) ''file_id''))
           (or_default (get_or (searchParams req) ''sub_format'' [])
              (get_or (searchParams req) ''format'' ''srt''))) st1 = (Inr dlResp, st2)"
    and r: "ok dlResp" "json dlResp = Some j" "truthy (j_link j)"
      "net (length (sent_t st2)) = Answer fileResp"
    and s: "subFormat = or_default (get_or (searchParams req) ''sub_format'' [])
                  (get_or (searchParams req) ''format'' ''srt'')"
    by auto
  have "handleDownloadFile dec env net t req st
      = (Inr ?resp, st2\<lparr>sent_t := sent_t st2 @ [FileGet (text_of (j_link j))]\<rparr>)"
    unfolding s by (simp add: handleDownloadFile_def Let_def f l d r)
  moreover have "list_all (\<lambda>(k, v). map_of (headers ?resp) k = Some v) CORS_HEADERS"
    by (auto simp: list_all_iff file_headers_cors)
  ultimately show "\<exists>resp st'. handleDownloadFile dec env net t req st = (Inr resp, st') \<and>
         code resp = status fileResp \<and> body resp = Stream (rtxt fileResp) \<and>
         map_of (headers resp) ''content-disposition''
           = Some (''attachment; filename='' @ quoted ?name) \<and>
         list_all (\<lambda>(k, v). map_of (headers resp) k = Some v) CORS_HEADERS \<and>
         sent_t st' = sent_t st2 @ [FileGet (text_of (j_link j))]"
    by (simp add: file_headers_disposition)
next
  assume a: "wid = pick (searchParams req') [''file_id''] \<and> wid \<noteq> [] \<and>
    wfmt = or_default (pick (searchParams req') [''format'']) ''srt'' \<and>
    ensureToken env' net' t' w = (Inr token', w1) \<and>
    fetch_w net' (Download (if truthy token' then token' else None) wid wfmt) w1 = (Answer dlRes, w2) \<and>
    ok dlRes \<and> json dlRes = Some d \<and> truthy (j_link d) \<and>
    fetch_w net' (FileGet (text_of (j_link d))) w2 = (Answer fileRes, w3) \<and> ok fileRes"
  let ?name = "if truthy (j_file_name d) then text_of (j_file_name d)
               else ''subtitle-'' @ wid @ ''.'' @ wfmt"
  from a obtain l where l: "j_link d = Some l"
    by (auto simp: truthy_def split: option.splits)
  from a have e: "ensureToken env' net' t' w = (Inr token', w1)"
    and d: "fetch_w net' (Download (if truthy token' then token' else None)
        (pick (searchParams req') [''file_id''])
        (or_default (pick (searchParams req') [''format'']) ''srt'')) w1 = (Answer dlRes, w2)"
    and r: "ok dlRes" "json dlRes = Some d" "truthy (j_link d)" "ok fileRes"
      "pick (searchParams req') [''file_id''] \<noteq> []"
    and g: "fetch_w net' (FileGet l) w2 = (Answer fileRes, w3)"
    and s: "wid = pick (searchParams req') [''file_id'']"
      "wfmt = or_default (pick (searchParams req') [''format'']) ''srt''"
    using l by (auto simp: text_of_def)
  from a l have tl: "truthy (Some l)"
    by simp
  have "worker_download_file env' net' t' req' w
      = (Inr (worker_file_response wfmt ?name fileRes), w3)"
  proof (cases "truthy token'")
    case True
    with d have "fetch_w net' (Download token'
        (pick (searchParams req') [''file_id''])
        (or_default (pick (searchParams req') [''format'']) ''srt'')) w1 = (Answer dlRes, w2)"
      by simp
    with True show ?thesis
      unfolding s by (simp add: worker_download_file_def Let_def e r g l tl del: pick.simps)
  next
    case False
    with d have "fetch_w net' (Download None
        (pick (searchParams req') [''file_id''])
        (or_default (pick (searchParams req') [''format'']) ''srt'')) w1 = (Answer dlRes, w2)"
      by simp
    with False show ?thesis
      unfolding s by (simp add: worker_download_file_def Let_def e r g l tl del: pick.simps)
  qed
  then show "\<exists>resp'. worker_download_file env' net' t' req' w = (Inr resp', w3) \<and>
         code resp' = 200 \<and> body resp' = Stream (rtxt fileRes) \<and>
         map_of (headers resp') ''content-disposition''
           = Some (''inline; filename='' @ quoted (strip_quotes ?name)) \<and>
         list_all (\<lambda>(k, v). map_of (headers resp') k = Some v) corsHeaders"
    by (simp add: worker_file_response_def corsHeaders_def Let_def)
qed

text \<open>
  \<^verbatim>\<open>/download-file?file_id=12345\<close> on \<^verbatim>\<open>tronapp-subproxy\<close>: login, link, file; the
  file is passed on as the attachment \<^verbatim>\<open>movie.srt\<close>.
\<close>

theorem download_file_response_witness:
  "truthy (map_of (searchParams (get_request ''/download-file'' [(''file_id'', ''12345'')])) ''file_id'') \<and>
   fst (login user_env login_file_net 0 fresh_tronapp) = Inr ''t1'' \<and>
   fst (osFetch_t user_env login_file_net (Download (Some ''t1'') ''12345'' ''srt'')
          (snd (login user_env login_file_net 0 fresh_tronapp)))
     = Inr (link_reply ''https://files.example/1'' (Some ''movie.srt'')) \<and>
   ok (link_reply ''https://files.example/1'' (Some ''movie.srt'')) \<and>
   (\<exists>resp st'. handleDownloadFile Some user_env login_file_net 0
        (get_request ''/download-file'' [(''file_id'', ''12345'')]) fresh_tronapp = (Inr resp, st') \<and>
      code resp = 200 \<and> body resp = Stream ''subtitle text'' \<and>
      map_of (headers resp) ''content-disposition'' = Some (''attachment; filename='' @ quoted ''movie.srt'') \<and>
      list_all (\<lambda>(k, v). map_of (headers resp) k = Some v) CORS_HEADERS \<and>
      sent_t st' = [Login ''user'' ''secret'', Download (Some ''t1'') ''12345'' ''srt'',
                    FileGet ''https://files.example/1''])"
proof -
  let ?req = "get_request ''/download-file'' [(''file_id'', ''12345'')]"
  let ?l = "login user_env login_file_net 0 fresh_tronapp"
  let ?d = "osFetch_t user_env login_file_net (Download (Some ''t1'') ''12345'' ''srt'') (snd ?l)"
  let ?j = "blank_json\<lparr>j_link := Some ''https://files.example/1'', j_file_name := Some ''movie.srt''\<rparr>"
  have p: "truthy (map_of (searchParams ?req) ''file_id'')"
    "''12345'' = text_of (map_of (searchParams ?req) ''file_id'')"
    "''srt'' = or_default (get_or (searchParams ?req) ''sub_format'' []) (get_or (searchParams ?req) ''format'' ''srt'')"
    by (simp_all add: get_request_def truthy_def text_of_def get_or_def or_default_def)
  have l1: "fst ?l = Inr ''t1''" and ls: "sent_t (snd ?l) = [Login ''user'' ''secret'']"
    by (simp_all add: login_def cached_t_def osFetch_t_def getEnvOrThrow_def text_of_def trim_def
        is_space_def truthy_def ok_def Let_def scenario_defs worker_defs)
  then have l: "?l = (Inr ''t1'', snd ?l)"
    by (cases ?l) simp
  have d1: "fst ?d = Inr (link_reply ''https://files.example/1'' (Some ''movie.srt''))"
    and ds: "sent_t (snd ?d) = [Login ''user'' ''secret'', Download (Some ''t1'') ''12345'' ''srt'']"
    using ls
    by (simp_all add: osFetch_t_def getEnvOrThrow_def trim_def is_space_def worker_defs)
  then have d: "?d = (Inr (link_reply ''https://files.example/1'' (Some ''movie.srt'')), snd ?d)"
    by (cases ?d) simp
  have r: "ok (link_reply ''https://files.example/1'' (Some ''movie.srt''))"
    "json (link_reply ''https://files.example/1'' (Some ''movie.srt'')) = Some ?j"
    "truthy (j_link ?j)" "truthy (j_file_name ?j)" "text_of (j_file_name ?j) = ''movie.srt''"
    "text_of (j_link ?j) = ''https://files.example/1''"
    "strip_quotes ''movie.srt'' = ''movie.srt''"
    by (simp_all add: link_reply_def ok_def truthy_def text_of_def strip_quotes_def)
  have n: "login_file_net (length (sent_t (snd ?d))) = Answer (file_reply ''subtitle text'')"
    "status (file_reply ''subtitle text'') = 200" "rtxt (file_reply ''subtitle text'') = ''subtitle text''"
    by (simp_all add: ds login_file_net_def file_reply_def)
  from download_file_response [of ?req "''12345''" "''srt''" user_env login_file_net 0 fresh_tronapp
      "''t1''" "snd ?l" "link_reply ''https://files.example/1'' (Some ''movie.srt'')" "snd ?d" ?j
      "file_reply ''subtitle text''" Some]
    p l l1 d d1 r n ds
  show ?thesis by simp
qed

text \<open>
  The sentence of the specification does not hold in \<^verbatim>\<open>opensubtitles-proxy.worker.js\<close>: the file is
  passed on with the disposition \<^verbatim>\<open>inline\<close>, not \<^verbatim>\<open>attachment\<close>.
\<close>

theorem inline_disposition_counterexample:
  "code (fst (worker_fetch anonymous_env file_net 0
       (get_request ''/download-file'' [(''file_id'', ''12345'')]) fresh_worker)) = 200 \<and>
   body (fst (worker_fetch anonymous_env file_net 0
       (get_request ''/download-file'' [(''file_id'', ''12345'')]) fresh_worker)) = Stream ''subtitle text'' \<and>
   map_of (headers (fst (worker_fetch anonymous_env file_net 0
       (get_request ''/download-file'' [(''file_id'', ''12345'')]) fresh_worker))) ''content-disposition''
     = Some (''inline; filename='' @ quoted ''movie.srt'')"
  by (simp add: worker_fetch_def worker_download_file_def worker_file_response_def ensureToken_def
      fetch_w_def corsHeaders_def or_default_def text_of_def strip_quotes_def trim_def is_space_def
      truthy_def ok_def Let_def scenario_defs worker_defs)

end
